theory Spec2Isabelle
  imports Complex_Main "HOL-Library.Sublist"
begin

section \<open>The scenario simulation of the simulation panel\<close>

text \<open>
  \<^verbatim>\<open>runLocalSimulation\<close>, of the simulation panel component in
  frontend/src/pages/Vendors.tsx, is a pure function from five lever multipliers to a
  result record. Its
  numbers are JavaScript numbers; they are modelled as \<^typ>\<open>real\<close>, so every product,
  sum and quotient below is the exact one and the rounding of IEEE doubles is left out.
  Overflow to an infinity and \<open>NaN\<close>, which the source reaches at extreme but finite
  parameters, are the subject of a second embedding of the numeric stages, further down.
  The library calls of the source are modelled by what they return on such a number:
  \<^verbatim>\<open>Math.round\<close>, \<^verbatim>\<open>Math.abs\<close>, \<^verbatim>\<open>Math.max\<close>, \<^verbatim>\<open>Math.min\<close>, \<^verbatim>\<open>toFixed\<close>,
  \<^verbatim>\<open>parseFloat\<close>, the conversion of a number to text inside a template literal, and
  \<^verbatim>\<open>Array.prototype.join\<close>.
\<close>

subsection \<open>Data\<close>

record SimulationParams =
  sales_growth_multiplier :: real
  expense_growth_multiplier :: real
  fraud_sensitivity :: real
  supplier_delay_factor :: real
  reorder_threshold_multiplier :: real

record ForecastPoint =
  period :: string
  val :: real

record Metadata =
  base_health_score :: real
  base_expense_total :: real
  fraud_rate_percent :: real

record SimulationResult =
  new_health_score :: real
  delta_from_base :: real
  projected_cash :: real
  risk_index :: real
  revenue_forecast :: "ForecastPoint list"
  explanation_summary :: string
  metadata :: Metadata

definition DEFAULT_PARAMS :: SimulationParams where
  "DEFAULT_PARAMS =
     \<lparr> sales_growth_multiplier = 1.0,
       expense_growth_multiplier = 1.0,
       fraud_sensitivity = 1.0,
       supplier_delay_factor = 1.0,
       reorder_threshold_multiplier = 1.0 \<rparr>"

definition baseResult :: SimulationResult where
  "baseResult =
     \<lparr> new_health_score = 75,
       delta_from_base = 0,
       projected_cash = 100000,
       risk_index = 40,
       revenue_forecast =
         [\<lparr> period = ''P1'', val = 80000 \<rparr>,
          \<lparr> period = ''P2'', val = 82500 \<rparr>,
          \<lparr> period = ''P3'', val = 85000 \<rparr>,
          \<lparr> period = ''P4'', val = 87500 \<rparr>],
       explanation_summary =
         ''Baseline scenario using current health, expense and fraud signals to project revenue, cash and risk over the next four periods.'',
       metadata =
         \<lparr> base_health_score = 75,
           base_expense_total = 50000,
           fraud_rate_percent = 10 \<rparr> \<rparr>"

subsection \<open>The library calls\<close>

text \<open>
  \<^verbatim>\<open>Math.round\<close> returns the nearest integer and, at a tie, the one towards plus
  infinity. The result is still a number, so it stays a \<^typ>\<open>real\<close>.
\<close>

definition Math_round :: "real \<Rightarrow> real" where
  "Math_round x = of_int \<lfloor>x + 1 / 2\<rfloor>"

definition Math_abs :: "real \<Rightarrow> real" where
  "Math_abs x = (if x < 0 then - x else x)"

definition Math_max :: "real \<Rightarrow> real \<Rightarrow> real" where
  "Math_max a b = (if a < b then b else a)"

definition Math_min :: "real \<Rightarrow> real \<Rightarrow> real" where
  "Math_min a b = (if b < a then b else a)"

text \<open>
  Decimal digits of a natural number, most significant first, and of an integer with
  its sign: the text a template literal puts in for an integral number (the source
  interpolates results of \<^verbatim>\<open>Math.round\<close> only; below \<open>10^21\<close> in magnitude
  JavaScript prints them as plain digits).
\<close>

fun digits :: "nat \<Rightarrow> string" where
  "digits n =
     (if n < 10 then [''0123456789'' ! n]
      else digits (n div 10) @ [''0123456789'' ! (n mod 10)])"

definition String_of_number :: "real \<Rightarrow> string" where
  "String_of_number x =
     (if x < 0 then ''-'' @ digits (nat \<lfloor>- x\<rfloor>) else digits (nat \<lfloor>x\<rfloor>))"

text \<open>
  \<^verbatim>\<open>x.toFixed(f)\<close>: the sign is taken off first, then \<open>n\<close> is the integer with
  \<open>n / 10^f\<close> nearest to \<open>|x|\<close>, the larger one at a tie; the text is the sign, the
  digits of \<open>n\<close> padded with zeros to more than \<open>f\<close> digits, and a point before the
  last \<open>f\<close> of them. \<open>toFixed_n\<close> is that integer and \<open>toFixed\<close> the text
  (for \<open>|x| < 10^21\<close>, where JavaScript prints no exponent).
\<close>

definition toFixed_n :: "nat \<Rightarrow> real \<Rightarrow> nat" where
  "toFixed_n f x = nat \<lfloor>\<bar>x\<bar> * 10 ^ f + 1 / 2\<rfloor>"

definition toFixed :: "nat \<Rightarrow> real \<Rightarrow> string" where
  "toFixed f x =
     (let m = digits (toFixed_n f x);
          m' = (if f \<noteq> 0 \<and> length m \<le> f then replicate (f + 1 - length m) (CHR ''0'') @ m else m);
          k = length m'
      in (if x < 0 then ''-'' else '''') @
         (if f = 0 then m' else take (k - f) m' @ ''.'' @ drop (k - f) m'))"

text \<open>
  \<^verbatim>\<open>parseFloat\<close> on such a text: an optional minus sign, the digits before the
  point and the digits after it.
\<close>

definition digit_val :: "char \<Rightarrow> nat" where
  "digit_val c = of_char c - 48"

definition parse_nat :: "string \<Rightarrow> nat" where
  "parse_nat s = foldl (\<lambda>a c. 10 * a + digit_val c) 0 s"

definition parse_unsigned :: "string \<Rightarrow> real" where
  "parse_unsigned s =
     (let ip = takeWhile (\<lambda>c. c \<noteq> CHR ''.'') s;
          fp = drop 1 (dropWhile (\<lambda>c. c \<noteq> CHR ''.'') s)
      in real (parse_nat ip) + real (parse_nat fp) / 10 ^ length fp)"

definition parseFloat :: "string \<Rightarrow> real" where
  "parseFloat s =
     (case s of
        [] \<Rightarrow> 0
      | c # cs \<Rightarrow> if c = CHR ''-'' then - parse_unsigned cs else parse_unsigned s)"

text \<open>
  \<^verbatim>\<open>parts.join(' ')\<close>: the elements in order with the separator between neighbours,
  the empty text for no element.
\<close>

fun join :: "string \<Rightarrow> string list \<Rightarrow> string" where
  "join sep [] = []"
| "join sep [x] = x"
| "join sep (x # y # ys) = x @ sep @ join sep (y # ys)"

subsection \<open>The simulation\<close>

text \<open>
  Each \<^verbatim>\<open>const\<close> of \<^verbatim>\<open>runLocalSimulation\<close> is a definition of the same name, in
  the order of the source; those that depend on the argument take it as \<open>p\<close>.
\<close>

definition baseHealth :: real where
  "baseHealth = base_health_score (metadata baseResult)"

definition baseExpense :: real where
  "baseExpense = base_expense_total (metadata baseResult)"

definition baseFraud :: real where
  "baseFraud = fraud_rate_percent (metadata baseResult)"

definition baseRevenue0 :: real where
  "baseRevenue0 = baseExpense * 1.4"

definition baseSeries :: "real list" where
  "baseSeries = map (\<lambda>i. baseRevenue0 * (1 + 0.03 * i)) [0, 1, 2, 3]"

definition revenueSeries :: "SimulationParams \<Rightarrow> real list" where
  "revenueSeries p = map (\<lambda>v. v * sales_growth_multiplier p) baseSeries"

definition simulatedExpenseTotal :: "SimulationParams \<Rightarrow> real" where
  "simulatedExpenseTotal p = baseExpense * expense_growth_multiplier p"

definition revenueSum :: "SimulationParams \<Rightarrow> real" where
  "revenueSum p = foldl (\<lambda>acc v. acc + v) 0 (revenueSeries p)"

definition expenseSum :: "SimulationParams \<Rightarrow> real" where
  "expenseSum p = simulatedExpenseTotal p * 4"

definition projectedCash :: "SimulationParams \<Rightarrow> real" where
  "projectedCash p = 100000 + revenueSum p - expenseSum p"

definition fraudComponent :: "SimulationParams \<Rightarrow> real" where
  "fraudComponent p = baseFraud * (0.6 * fraud_sensitivity p)"

definition inventoryComponent :: "SimulationParams \<Rightarrow> real" where
  "inventoryComponent p =
     (supplier_delay_factor p - 1) * 40 + (reorder_threshold_multiplier p - 1) * 25"

definition expenseComponent :: "SimulationParams \<Rightarrow> real" where
  "expenseComponent p = (expense_growth_multiplier p - 1) * 60"

definition rawRisk :: "SimulationParams \<Rightarrow> real" where
  "rawRisk p = fraudComponent p + inventoryComponent p + expenseComponent p"

definition riskIndex :: "SimulationParams \<Rightarrow> real" where
  "riskIndex p = Math_max 0 (Math_min 100 (rawRisk p))"

definition revenueVsExpenseDelta :: "SimulationParams \<Rightarrow> real" where
  "revenueVsExpenseDelta p =
     (sales_growth_multiplier p - expense_growth_multiplier p) * 18"

definition riskDelta :: "SimulationParams \<Rightarrow> real" where
  "riskDelta p = - ((riskIndex p - 40) / 4.5)"

definition supplierDelta :: "SimulationParams \<Rightarrow> real" where
  "supplierDelta p = - (supplier_delay_factor p - 1) * 10"

definition healthDelta :: "SimulationParams \<Rightarrow> real" where
  "healthDelta p = revenueVsExpenseDelta p + riskDelta p + supplierDelta p"

definition newHealth :: "SimulationParams \<Rightarrow> real" where
  "newHealth p = Math_max 0 (Math_min 100 (baseHealth + healthDelta p))"

definition deltaFromBase :: "SimulationParams \<Rightarrow> real" where
  "deltaFromBase p = newHealth p - baseHealth"

definition revenueForecast :: "SimulationParams \<Rightarrow> ForecastPoint list" where
  "revenueForecast p =
     map (\<lambda>(i, v). \<lparr> period = ''P'' @ String_of_number (real i + 1), val = Math_round v \<rparr>)
       (enumerate 0 (revenueSeries p))"

text \<open>
  The four template sentences and the fallback. The first two take the lever's value
  and choose their wording by the sign of the rounded percentage.
\<close>

definition sales_sentence :: "real \<Rightarrow> string" where
  "sales_sentence m =
     (let pct = Math_round ((m - 1) * 100)
      in if pct \<ge> 0
         then ''Sales growth increased by '' @ String_of_number pct @
              ''% which lifts projected revenue across the horizon.''
         else ''Sales growth reduced by '' @ String_of_number (Math_abs pct) @
              ''% which compresses projected revenue.'')"

definition expense_sentence :: "real \<Rightarrow> string" where
  "expense_sentence m =
     (let pct = Math_round ((m - 1) * 100)
      in if pct \<ge> 0
         then ''Expenses are projected to grow by '' @ String_of_number pct @
              ''%, creating additional pressure on cash and health.''
         else ''Expenses are reduced by '' @ String_of_number (Math_abs pct) @
              ''%, supporting stronger cash generation.'')"

definition fraud_sentence :: "real \<Rightarrow> string" where
  "fraud_sentence m =
     ''Fraud sensitivity set to '' @ toFixed 2 m @
     '' changes how strongly fraud findings influence the unified risk index.''"

definition supply_sentence :: string where
  "supply_sentence =
     ''Supply-chain levers (supplier delays and reorder thresholds) adjust inventory risk and slightly affect overall health.''"

definition fallback_sentence :: string where
  "fallback_sentence =
     ''Simulation uses current baseline assumptions to project revenue, cash and risk over the next four periods.''"

text \<open>
  \<^verbatim>\<open>explanationParts\<close> starts empty and receives up to four pushes, in this order.
\<close>

definition explanationParts :: "SimulationParams \<Rightarrow> string list" where
  "explanationParts p =
     (let parts0 = [];
          parts1 = (if sales_growth_multiplier p \<noteq> 1
                    then parts0 @ [sales_sentence (sales_growth_multiplier p)] else parts0);
          parts2 = (if expense_growth_multiplier p \<noteq> 1
                    then parts1 @ [expense_sentence (expense_growth_multiplier p)] else parts1);
          parts3 = (if fraud_sensitivity p \<noteq> 1
                    then parts2 @ [fraud_sentence (fraud_sensitivity p)] else parts2);
          parts4 = (if supplier_delay_factor p \<noteq> 1 \<or> reorder_threshold_multiplier p \<noteq> 1
                    then parts3 @ [supply_sentence] else parts3)
      in parts4)"

text \<open>\<^verbatim>\<open>a || b\<close> on texts: the empty text is falsy.\<close>

definition explanation_summary_of :: "SimulationParams \<Rightarrow> string" where
  "explanation_summary_of p =
     (let s = join '' '' (explanationParts p) in if s = [] then fallback_sentence else s)"

definition runLocalSimulation :: "SimulationParams \<Rightarrow> SimulationResult" where
  "runLocalSimulation p =
     \<lparr> new_health_score = parseFloat (toFixed 1 (newHealth p)),
       delta_from_base = parseFloat (toFixed 1 (deltaFromBase p)),
       projected_cash = Math_round (projectedCash p),
       risk_index = parseFloat (toFixed 1 (riskIndex p)),
       revenue_forecast = revenueForecast p,
       explanation_summary = explanation_summary_of p,
       metadata = metadata baseResult \<rparr>"

subsection \<open>The explanation as the specification words it\<close>

text \<open>
  The specification describes the explanation as a list of levers in a fixed order, each
  with the test "differs from 1.0" and its sentence (supplier delay and reorder threshold
  sharing one), of which the active ones are written out with single spaces between
  them, and the fallback sentence when none is active. \<open>spec_explanation\<close> follows these
  words; it is compared with the source's \<open>explanation_summary_of\<close> below.
\<close>

definition spaced :: "string list \<Rightarrow> string" where
  "spaced ss = (case ss of [] \<Rightarrow> [] | s # rest \<Rightarrow> s @ concat (map (\<lambda>t. '' '' @ t) rest))"

definition spec_levers :: "SimulationParams \<Rightarrow> (bool \<times> string) list" where
  "spec_levers p =
     [(sales_growth_multiplier p \<noteq> 1, sales_sentence (sales_growth_multiplier p)),
      (expense_growth_multiplier p \<noteq> 1, expense_sentence (expense_growth_multiplier p)),
      (fraud_sensitivity p \<noteq> 1, fraud_sentence (fraud_sensitivity p)),
      (supplier_delay_factor p \<noteq> 1 \<or> reorder_threshold_multiplier p \<noteq> 1, supply_sentence)]"

definition spec_explanation :: "SimulationParams \<Rightarrow> string" where
  "spec_explanation p =
     (let active = map snd (filter fst (spec_levers p))
      in if active = [] then fallback_sentence else spaced active)"

subsection \<open>The simulation on numbers that can overflow\<close>

text \<open>
  A JavaScript number is a binary64 value: a finite one, \<open>Infinity\<close>, \<open>-Infinity\<close> or \<open>NaN\<close>.
  The definitions above compute in exact reals and so never leave the finite numbers;
  the source does, when a product or sum leaves the range of binary64. The definitions
  of this subsection repeat the numeric part of \<^verbatim>\<open>runLocalSimulation\<close>, stage by stage
  and under the source's names with the suffix \<open>_ext\<close>, on the type \<open>number\<close>. An
  operation on finite operands takes its exact result \<open>r\<close> to \<open>result_ext r\<close>: infinite
  when \<open>|r|\<close> reaches \<open>2^1024 - 2^970\<close> (from there on binary64 rounds to infinity), and
  \<open>r\<close> itself below that, the rounding inside the finite range being left out as before.
  On non-finite operands the operations follow IEEE 754: \<open>Infinity - Infinity\<close> and
  \<open>Infinity * 0\<close> are \<open>NaN\<close>, \<open>NaN\<close> is passed on by every operation, and
  \<^verbatim>\<open>Math.max\<close> and \<^verbatim>\<open>Math.min\<close> return \<open>NaN\<close> when an argument is \<open>NaN\<close>. The sign of a
  zero is not modelled; the only divisor of the source is the constant 4.5. The five
  parameters are finite numbers, given as reals.
\<close>

datatype number = Finite real | Infinity | NegInfinity | NaN

definition OVERFLOW :: real where
  "OVERFLOW = 2 ^ 1024 - 2 ^ 970"

definition result_ext :: "real \<Rightarrow> number" where
  "result_ext r =
     (if OVERFLOW \<le> r then Infinity else if r \<le> - OVERFLOW then NegInfinity else Finite r)"

fun neg_ext :: "number \<Rightarrow> number" where
  "neg_ext (Finite a) = Finite (- a)"
| "neg_ext Infinity = NegInfinity"
| "neg_ext NegInfinity = Infinity"
| "neg_ext NaN = NaN"

fun add_ext :: "number \<Rightarrow> number \<Rightarrow> number" where
  "add_ext NaN y = NaN"
| "add_ext x NaN = NaN"
| "add_ext (Finite a) (Finite b) = result_ext (a + b)"
| "add_ext Infinity NegInfinity = NaN"
| "add_ext NegInfinity Infinity = NaN"
| "add_ext Infinity y = Infinity"
| "add_ext x Infinity = Infinity"
| "add_ext NegInfinity y = NegInfinity"
| "add_ext x NegInfinity = NegInfinity"

definition sub_ext :: "number \<Rightarrow> number \<Rightarrow> number" where
  "sub_ext x y = add_ext x (neg_ext y)"

fun mul_ext :: "number \<Rightarrow> number \<Rightarrow> number" where
  "mul_ext NaN y = NaN"
| "mul_ext x NaN = NaN"
| "mul_ext (Finite a) (Finite b) = result_ext (a * b)"
| "mul_ext Infinity (Finite b) = (if b = 0 then NaN else if 0 < b then Infinity else NegInfinity)"
| "mul_ext NegInfinity (Finite b) = (if b = 0 then NaN else if 0 < b then NegInfinity else Infinity)"
| "mul_ext (Finite a) Infinity = (if a = 0 then NaN else if 0 < a then Infinity else NegInfinity)"
| "mul_ext (Finite a) NegInfinity = (if a = 0 then NaN else if 0 < a then NegInfinity else Infinity)"
| "mul_ext Infinity Infinity = Infinity"
| "mul_ext NegInfinity NegInfinity = Infinity"
| "mul_ext Infinity NegInfinity = NegInfinity"
| "mul_ext NegInfinity Infinity = NegInfinity"

fun div_ext :: "number \<Rightarrow> number \<Rightarrow> number" where
  "div_ext NaN y = NaN"
| "div_ext x NaN = NaN"
| "div_ext (Finite a) (Finite b) =
     (if b = 0 then (if a = 0 then NaN else if 0 < a then Infinity else NegInfinity)
      else result_ext (a / b))"
| "div_ext (Finite a) y = Finite 0"
| "div_ext Infinity (Finite b) = (if 0 \<le> b then Infinity else NegInfinity)"
| "div_ext NegInfinity (Finite b) = (if 0 \<le> b then NegInfinity else Infinity)"
| "div_ext x y = NaN"

fun Math_max_ext :: "number \<Rightarrow> number \<Rightarrow> number" where
  "Math_max_ext NaN y = NaN"
| "Math_max_ext x NaN = NaN"
| "Math_max_ext (Finite a) (Finite b) = Finite (Math_max a b)"
| "Math_max_ext Infinity y = Infinity"
| "Math_max_ext x Infinity = Infinity"
| "Math_max_ext NegInfinity y = y"
| "Math_max_ext x NegInfinity = x"

fun Math_min_ext :: "number \<Rightarrow> number \<Rightarrow> number" where
  "Math_min_ext NaN y = NaN"
| "Math_min_ext x NaN = NaN"
| "Math_min_ext (Finite a) (Finite b) = Finite (Math_min a b)"
| "Math_min_ext NegInfinity y = NegInfinity"
| "Math_min_ext x NegInfinity = NegInfinity"
| "Math_min_ext Infinity y = y"
| "Math_min_ext x Infinity = x"

fun Math_round_ext :: "number \<Rightarrow> number" where
  "Math_round_ext (Finite a) = result_ext (Math_round a)"
| "Math_round_ext x = x"

text \<open>
  \<^verbatim>\<open>toFixed\<close> writes the three non-finite numbers as words, and \<^verbatim>\<open>parseFloat\<close> reads
  these words back.
\<close>

fun toFixed_ext :: "nat \<Rightarrow> number \<Rightarrow> string" where
  "toFixed_ext f (Finite a) = toFixed f a"
| "toFixed_ext f Infinity = ''Infinity''"
| "toFixed_ext f NegInfinity = ''-Infinity''"
| "toFixed_ext f NaN = ''NaN''"

definition parseFloat_ext :: "string \<Rightarrow> number" where
  "parseFloat_ext s =
     (if s = ''NaN'' then NaN
      else if s = ''Infinity'' then Infinity
      else if s = ''-Infinity'' then NegInfinity
      else Finite (parseFloat s))"

text \<open>
  The numeric fields of the result, and the stages in the order of the source.
\<close>

record ForecastPoint_ext =
  period_ext :: string
  val_ext :: number

record SimulationResult_ext =
  new_health_score_ext :: number
  delta_from_base_ext :: number
  projected_cash_ext :: number
  risk_index_ext :: number
  revenue_forecast_ext :: "ForecastPoint_ext list"

definition revenueSeries_ext :: "SimulationParams \<Rightarrow> number list" where
  "revenueSeries_ext p =
     map (\<lambda>v. mul_ext (Finite v) (Finite (sales_growth_multiplier p))) baseSeries"

definition simulatedExpenseTotal_ext :: "SimulationParams \<Rightarrow> number" where
  "simulatedExpenseTotal_ext p =
     mul_ext (Finite baseExpense) (Finite (expense_growth_multiplier p))"

definition revenueSum_ext :: "SimulationParams \<Rightarrow> number" where
  "revenueSum_ext p = foldl (\<lambda>acc v. add_ext acc v) (Finite 0) (revenueSeries_ext p)"

definition expenseSum_ext :: "SimulationParams \<Rightarrow> number" where
  "expenseSum_ext p = mul_ext (simulatedExpenseTotal_ext p) (Finite 4)"

definition projectedCash_ext :: "SimulationParams \<Rightarrow> number" where
  "projectedCash_ext p =
     sub_ext (add_ext (Finite 100000) (revenueSum_ext p)) (expenseSum_ext p)"

definition fraudComponent_ext :: "SimulationParams \<Rightarrow> number" where
  "fraudComponent_ext p =
     mul_ext (Finite baseFraud) (mul_ext (Finite 0.6) (Finite (fraud_sensitivity p)))"

definition inventoryComponent_ext :: "SimulationParams \<Rightarrow> number" where
  "inventoryComponent_ext p =
     add_ext
       (mul_ext (sub_ext (Finite (supplier_delay_factor p)) (Finite 1)) (Finite 40))
       (mul_ext (sub_ext (Finite (reorder_threshold_multiplier p)) (Finite 1)) (Finite 25))"

definition expenseComponent_ext :: "SimulationParams \<Rightarrow> number" where
  "expenseComponent_ext p =
     mul_ext (sub_ext (Finite (expense_growth_multiplier p)) (Finite 1)) (Finite 60)"

definition rawRisk_ext :: "SimulationParams \<Rightarrow> number" where
  "rawRisk_ext p =
     add_ext (add_ext (fraudComponent_ext p) (inventoryComponent_ext p)) (expenseComponent_ext p)"

definition riskIndex_ext :: "SimulationParams \<Rightarrow> number" where
  "riskIndex_ext p = Math_max_ext (Finite 0) (Math_min_ext (Finite 100) (rawRisk_ext p))"

definition revenueVsExpenseDelta_ext :: "SimulationParams \<Rightarrow> number" where
  "revenueVsExpenseDelta_ext p =
     mul_ext
       (sub_ext (Finite (sales_growth_multiplier p)) (Finite (expense_growth_multiplier p)))
       (Finite 18)"

definition riskDelta_ext :: "SimulationParams \<Rightarrow> number" where
  "riskDelta_ext p = neg_ext (div_ext (sub_ext (riskIndex_ext p) (Finite 40)) (Finite 4.5))"

definition supplierDelta_ext :: "SimulationParams \<Rightarrow> number" where
  "supplierDelta_ext p =
     mul_ext (neg_ext (sub_ext (Finite (supplier_delay_factor p)) (Finite 1))) (Finite 10)"

definition healthDelta_ext :: "SimulationParams \<Rightarrow> number" where
  "healthDelta_ext p =
     add_ext (add_ext (revenueVsExpenseDelta_ext p) (riskDelta_ext p)) (supplierDelta_ext p)"

definition newHealth_ext :: "SimulationParams \<Rightarrow> number" where
  "newHealth_ext p =
     Math_max_ext (Finite 0)
       (Math_min_ext (Finite 100) (add_ext (Finite baseHealth) (healthDelta_ext p)))"

definition deltaFromBase_ext :: "SimulationParams \<Rightarrow> number" where
  "deltaFromBase_ext p = sub_ext (newHealth_ext p) (Finite baseHealth)"

definition revenueForecast_ext :: "SimulationParams \<Rightarrow> ForecastPoint_ext list" where
  "revenueForecast_ext p =
     map (\<lambda>(i, v). \<lparr> period_ext = ''P'' @ String_of_number (real i + 1),
                      val_ext = Math_round_ext v \<rparr>)
       (enumerate 0 (revenueSeries_ext p))"

definition runLocalSimulation_ext :: "SimulationParams \<Rightarrow> SimulationResult_ext" where
  "runLocalSimulation_ext p =
     \<lparr> new_health_score_ext = parseFloat_ext (toFixed_ext 1 (newHealth_ext p)),
       delta_from_base_ext = parseFloat_ext (toFixed_ext 1 (deltaFromBase_ext p)),
       projected_cash_ext = Math_round_ext (projectedCash_ext p),
       risk_index_ext = parseFloat_ext (toFixed_ext 1 (riskIndex_ext p)),
       revenue_forecast_ext = revenueForecast_ext p \<rparr>"


fun one_decimal :: "number \<Rightarrow> bool" where
  "one_decimal (Finite a) = (10 * a \<in> \<int>)"
| "one_decimal x = False"

fun integral :: "number \<Rightarrow> bool" where
  "integral (Finite a) = (a \<in> \<int>)"
| "integral x = False"

definition levers_at_most :: "real \<Rightarrow> SimulationParams \<Rightarrow> bool" where
  "levers_at_most K p =
     (\<bar>sales_growth_multiplier p\<bar> \<le> K \<and> \<bar>expense_growth_multiplier p\<bar> \<le> K \<and>
      \<bar>fraud_sensitivity p\<bar> \<le> K \<and> \<bar>supplier_delay_factor p\<bar> \<le> K \<and>
      \<bar>reorder_threshold_multiplier p\<bar> \<le> K)"

subsection \<open>An auxiliary definition\<close>

text \<open>
  The part of the text of \<open>toFixed\<close> after the sign, named for the proofs about what
  \<open>parseFloat\<close> reads back from it.
\<close>

definition fixed_body :: "nat \<Rightarrow> nat \<Rightarrow> string" where
  "fixed_body f n =
     (let m = digits n;
          m' = (if f \<noteq> 0 \<and> length m \<le> f then replicate (f + 1 - length m) (CHR ''0'') @ m else m);
          k = length m'
      in if f = 0 then m' else take (k - f) m' @ ''.'' @ drop (k - f) m')"

section \<open>Properties of the library calls\<close>

declare digits.simps [simp del]

lemma digit_char_val: "k < 10 \<Longrightarrow> digit_val (''0123456789'' ! k) = k"
proof -
  assume "k < 10"
  then have "k \<in> {0,1,2,3,4,5,6,7,8,9}" by auto
  then show ?thesis by (auto simp: digit_val_def)
qed

lemma digit_char_plain: "k < 10 \<Longrightarrow> ''0123456789'' ! k \<noteq> CHR ''.'' \<and> ''0123456789'' ! k \<noteq> CHR ''-''"
proof -
  assume "k < 10"
  then have "k \<in> {0,1,2,3,4,5,6,7,8,9}" by auto
  then show ?thesis by auto
qed

lemma parse_nat_snoc: "parse_nat (s @ [c]) = 10 * parse_nat s + digit_val c"
  by (simp add: parse_nat_def)

lemma parse_nat_digits: "parse_nat (digits n) = n"
proof (induction n rule: digits.induct)
  case (1 n)
  show ?case
  proof (cases "n < 10")
    case True
    then show ?thesis
      by (subst digits.simps) (simp add: parse_nat_def digit_char_val)
  next
    case False
    then have "parse_nat (digits (n div 10)) = n div 10" using 1 by simp
    with False show ?thesis
      by (subst digits.simps) (simp add: parse_nat_snoc digit_char_val)
  qed
qed

lemma digits_plain: "c \<in> set (digits n) \<Longrightarrow> c \<noteq> CHR ''.'' \<and> c \<noteq> CHR ''-''"
proof (induction n rule: digits.induct)
  case (1 n)
  show ?case
  proof (cases "n < 10")
    case True
    with 1(2) show ?thesis
      by (subst (asm) digits.simps) (simp add: digit_char_plain)
  next
    case False
    with 1 show ?thesis
      by (subst (asm) (2) digits.simps) (auto simp: digit_char_plain)
  qed
qed

lemma digits_nonempty: "digits n \<noteq> []"
  by (subst digits.simps) simp

lemma parse_nat_append: "parse_nat (a @ b) = parse_nat a * 10 ^ length b + parse_nat b"
proof (induction b rule: rev_induct)
  case Nil
  show ?case by (simp add: parse_nat_def)
next
  case (snoc c b)
  have "parse_nat (a @ b @ [c]) = 10 * parse_nat (a @ b) + digit_val c"
    using parse_nat_snoc [of "a @ b" c] by simp
  then show ?case by (simp add: snoc.IH parse_nat_snoc algebra_simps)
qed

lemma parse_nat_zeros: "parse_nat (replicate k (CHR ''0'')) = 0"
  by (induction k) (simp_all add: parse_nat_def digit_val_def)

lemma parse_unsigned_point:
  assumes "\<forall>c \<in> set a. c \<noteq> CHR ''.''"
  shows "parse_unsigned (a @ ''.'' @ b) = real (parse_nat a) + real (parse_nat b) / 10 ^ length b"
proof -
  have t: "takeWhile (\<lambda>c. c \<noteq> CHR ''.'') (a @ ''.'' @ b) = a"
    using assms by (simp add: takeWhile_append2)
  have d: "dropWhile (\<lambda>c. c \<noteq> CHR ''.'') (a @ ''.'' @ b) = ''.'' @ b"
    using assms by (simp add: dropWhile_append2)
  show ?thesis unfolding parse_unsigned_def Let_def t d by simp
qed

lemma parse_unsigned_plain:
  assumes "\<forall>c \<in> set a. c \<noteq> CHR ''.''"
  shows "parse_unsigned a = real (parse_nat a)"
proof -
  have t: "takeWhile (\<lambda>c. c \<noteq> CHR ''.'') a = a"
    using assms by (simp add: takeWhile_eq_all_conv)
  have d: "dropWhile (\<lambda>c. c \<noteq> CHR ''.'') a = []"
    using assms by simp
  show ?thesis unfolding parse_unsigned_def Let_def t d by (simp add: parse_nat_def)
qed

lemma toFixed_body: "toFixed f x = (if x < 0 then ''-'' else []) @ fixed_body f (toFixed_n f x)"
  by (simp add: toFixed_def fixed_body_def Let_def)

lemma padded_plain:
  "c \<in> set (replicate j (CHR ''0'') @ digits n) \<Longrightarrow> c \<noteq> CHR ''.'' \<and> c \<noteq> CHR ''-''"
  using digits_plain [of c n] by auto

lemma parse_nat_padded: "parse_nat (replicate j (CHR ''0'') @ digits n) = n"
  by (simp add: parse_nat_append parse_nat_zeros parse_nat_digits)

lemma parse_split:
  assumes "\<forall>c \<in> set m. c \<noteq> CHR ''.''" and "f < length m"
  shows "parse_unsigned (take (length m - f) m @ ''.'' @ drop (length m - f) m)
           = real (parse_nat m) / 10 ^ f"
proof -
  let ?a = "take (length m - f) m" and ?b = "drop (length m - f) m"
  have la: "\<forall>c \<in> set ?a. c \<noteq> CHR ''.''"
    using assms(1) by (meson in_set_takeD)
  have lb: "length ?b = f" using assms(2) by simp
  have "parse_nat m = parse_nat (?a @ ?b)" by simp
  also have "\<dots> = parse_nat ?a * 10 ^ f + parse_nat ?b"
    using parse_nat_append [of ?a ?b] lb by simp
  finally have m: "real (parse_nat m) = real (parse_nat ?a) * 10 ^ f + real (parse_nat ?b)"
    by simp
  have "parse_unsigned (?a @ ''.'' @ ?b) = real (parse_nat ?a) + real (parse_nat ?b) / 10 ^ f"
    using parse_unsigned_point [OF la, of ?b] lb by simp
  also have "\<dots> = real (parse_nat m) / 10 ^ f"
    unfolding m by (simp add: field_simps)
  finally show ?thesis .
qed

lemma parse_fixed_body: "parse_unsigned (fixed_body f n) = real n / 10 ^ f"
proof (cases "f = 0")
  case True
  have "\<forall>c \<in> set (digits n). c \<noteq> CHR ''.''" using digits_plain by blast
  then show ?thesis
    using True by (simp add: fixed_body_def parse_unsigned_plain parse_nat_digits)
next
  case False
  show ?thesis
  proof (cases "length (digits n) \<le> f")
    case True
    let ?m = "replicate (f + 1 - length (digits n)) (CHR ''0'') @ digits n"
    have p: "\<forall>c \<in> set ?m. c \<noteq> CHR ''.''" using padded_plain by blast
    have l: "f < length ?m" using True by simp
    have "fixed_body f n = take (length ?m - f) ?m @ ''.'' @ drop (length ?m - f) ?m"
      using False True by (simp add: fixed_body_def Let_def)
    then show ?thesis
      using parse_split [OF p l] by (simp add: parse_nat_padded)
  next
    case long: False
    let ?m = "digits n"
    have p: "\<forall>c \<in> set ?m. c \<noteq> CHR ''.''" using digits_plain by blast
    have l: "f < length ?m" using long by simp
    have "fixed_body f n = take (length ?m - f) ?m @ ''.'' @ drop (length ?m - f) ?m"
      using False long by (simp add: fixed_body_def Let_def)
    then show ?thesis
      using parse_split [OF p l] by (simp add: parse_nat_digits)
  qed
qed

lemma fixed_body_plain: "c \<in> set (fixed_body f n) \<Longrightarrow> c \<noteq> CHR ''-''"
proof -
  assume c: "c \<in> set (fixed_body f n)"
  have "set (fixed_body f n) \<subseteq> set (digits n) \<union> {CHR ''0'', CHR ''.''}"
    unfolding fixed_body_def Let_def
    by (auto dest!: in_set_takeD in_set_dropD split: if_splits)
  with c digits_plain [of c n] show ?thesis by auto
qed

lemma fixed_body_nonempty: "fixed_body f n \<noteq> []"
  using digits_nonempty [of n] by (auto simp: fixed_body_def Let_def)

lemma parseFloat_toFixed:
  "parseFloat (toFixed f x) =
     (if x < 0 then - (real (toFixed_n f x) / 10 ^ f) else real (toFixed_n f x) / 10 ^ f)"
proof (cases "x < 0")
  case True
  then show ?thesis by (simp add: toFixed_body parseFloat_def parse_fixed_body)
next
  case False
  obtain c cs where b: "fixed_body f (toFixed_n f x) = c # cs"
    using fixed_body_nonempty [of f "toFixed_n f x"] by (cases "fixed_body f (toFixed_n f x)") auto
  have "c \<noteq> CHR ''-''"
    using fixed_body_plain [of c f "toFixed_n f x"] b by simp
  then have "parseFloat (toFixed f x) = parse_unsigned (fixed_body f (toFixed_n f x))"
    using False b by (simp add: toFixed_body parseFloat_def)
  then show ?thesis using False by (simp add: parse_fixed_body)
qed

section \<open>The stages of the simulation in closed form\<close>

lemma baseHealth_val: "baseHealth = 75"
  by (simp add: baseHealth_def baseResult_def)

lemma baseExpense_val: "baseExpense = 50000"
  by (simp add: baseExpense_def baseResult_def)

lemma baseFraud_val: "baseFraud = 10"
  by (simp add: baseFraud_def baseResult_def)

lemma baseSeries_val: "baseSeries = [70000, 72100, 74200, 76300]"
  by (simp add: baseSeries_def baseRevenue0_def baseExpense_val)

lemma revenueSeries_val:
  "revenueSeries p =
     [70000 * sales_growth_multiplier p, 72100 * sales_growth_multiplier p,
      74200 * sales_growth_multiplier p, 76300 * sales_growth_multiplier p]"
  by (simp add: revenueSeries_def baseSeries_val)

lemma revenueSum_val: "revenueSum p = 292600 * sales_growth_multiplier p"
  by (simp add: revenueSum_def revenueSeries_val)

lemma projectedCash_val:
  "projectedCash p =
     100000 + 292600 * sales_growth_multiplier p - 200000 * expense_growth_multiplier p"
  by (simp add: projectedCash_def revenueSum_val expenseSum_def simulatedExpenseTotal_def
      baseExpense_val)

lemma digits_small: "n < 10 \<Longrightarrow> digits n = [''0123456789'' ! n]"
  by (subst digits.simps) simp

lemma revenueForecast_val:
  "revenueForecast p =
     [\<lparr> period = ''P1'', val = Math_round (70000 * sales_growth_multiplier p) \<rparr>,
      \<lparr> period = ''P2'', val = Math_round (72100 * sales_growth_multiplier p) \<rparr>,
      \<lparr> period = ''P3'', val = Math_round (74200 * sales_growth_multiplier p) \<rparr>,
      \<lparr> period = ''P4'', val = Math_round (76300 * sales_growth_multiplier p) \<rparr>]"
  by (simp add: revenueForecast_def revenueSeries_val String_of_number_def digits_small)

lemma riskIndex_range: "0 \<le> riskIndex p \<and> riskIndex p \<le> 100"
  by (simp add: riskIndex_def Math_max_def Math_min_def)

lemma newHealth_range: "0 \<le> newHealth p \<and> newHealth p \<le> 100"
  by (simp add: newHealth_def Math_max_def Math_min_def)

lemma one_decimal_nonneg:
  "0 \<le> x \<Longrightarrow> parseFloat (toFixed 1 x) = of_int \<lfloor>x * 10 + 1 / 2\<rfloor> / 10"
proof -
  assume x: "0 \<le> x"
  then have "0 \<le> \<lfloor>x * 10 + 1 / 2\<rfloor>" by simp
  then have "real (nat \<lfloor>x * 10 + 1 / 2\<rfloor>) = of_int \<lfloor>x * 10 + 1 / 2\<rfloor>" by simp
  with x show ?thesis by (simp add: parseFloat_toFixed toFixed_n_def)
qed


lemma one_decimal_tenth: "10 * parseFloat (toFixed 1 x) \<in> \<int>"
  by (simp add: parseFloat_toFixed)

lemma Math_round_mono: "x \<le> y \<Longrightarrow> Math_round x \<le> Math_round y"
  by (simp add: Math_round_def floor_mono)

lemma Math_round_int: "Math_round x \<in> \<int>"
  by (simp add: Math_round_def)

section \<open>The neutral scenario and the explanation\<close>

lemma neutral_params:
  assumes "sales_growth_multiplier p = 1" "expense_growth_multiplier p = 1"
    "fraud_sensitivity p = 1" "supplier_delay_factor p = 1" "reorder_threshold_multiplier p = 1"
  shows "riskIndex p = 6" "newHealth p = 75 + 34 / 4.5" "explanationParts p = []"
proof -
  show r: "riskIndex p = 6"
    using assms
    by (simp add: riskIndex_def rawRisk_def fraudComponent_def inventoryComponent_def
        expenseComponent_def baseFraud_val Math_max_def Math_min_def)
  show "newHealth p = 75 + 34 / 4.5"
    using assms
    by (simp add: newHealth_def healthDelta_def revenueVsExpenseDelta_def riskDelta_def
        supplierDelta_def r baseHealth_val Math_max_def Math_min_def)
  show "explanationParts p = []"
    using assms by (simp add: explanationParts_def)
qed

lemma sales_sentence_nonempty [simp]: "sales_sentence m \<noteq> []"
  by (simp add: sales_sentence_def Let_def)

lemma expense_sentence_nonempty [simp]: "expense_sentence m \<noteq> []"
  by (simp add: expense_sentence_def Let_def)

lemma fraud_sentence_nonempty [simp]: "fraud_sentence m \<noteq> []"
  by (simp add: fraud_sentence_def)

lemma supply_sentence_nonempty [simp]: "supply_sentence \<noteq> []"
  by (simp add: supply_sentence_def)

lemma fallback_sentence_nonempty [simp]: "fallback_sentence \<noteq> []"
  by (simp add: fallback_sentence_def)

lemma join_space_Cons: "join '' '' (x # xs) = x @ concat (map (\<lambda>t. CHR '' '' # t) xs)"
  by (induction xs arbitrary: x) simp_all

lemma space_append: "(@) '' '' = (#) (CHR '' '')"
  by (rule ext) simp

lemma join_spaced: "join '' '' ss = spaced ss"
  by (cases ss) (simp_all add: spaced_def join_space_Cons space_append)

lemma spaced_nonempty: "ss \<noteq> [] \<Longrightarrow> hd ss \<noteq> [] \<Longrightarrow> spaced ss \<noteq> []"
  by (cases ss) (simp_all add: spaced_def)

lemma explanationParts_spec: "explanationParts p = map snd (filter fst (spec_levers p))"
  by (simp add: explanationParts_def spec_levers_def)

lemma explanationParts_hd: "explanationParts p \<noteq> [] \<Longrightarrow> hd (explanationParts p) \<noteq> []"
  by (auto simp: explanationParts_def)

section \<open>Overflow: the numbers with infinities and NaN\<close>

text \<open>
  First the library calls on \<open>number\<close>, then the agreement of the two embeddings: while the
  parameters have magnitude at most \<open>K\<close> with \<open>1000000 * K\<close> below the overflow threshold,
  every stage on \<open>number\<close> is the finite number that the stage on reals computes. Last,
  what the stages can be when they are not finite, and the two overflows used below.
\<close>

lemma OVERFLOW_big: "1000000 * 10 ^ 300 < OVERFLOW"
  by (simp add: OVERFLOW_def)

lemma result_ext_Finite: "\<bar>r\<bar> < OVERFLOW \<Longrightarrow> result_ext r = Finite r"
  by (auto simp: result_ext_def)

lemma digits_chars: "c \<in> set (digits n) \<Longrightarrow> c \<in> set ''0123456789''"
proof (induction n rule: digits.induct)
  case (1 n)
  have d: "\<And>k. k < 10 \<Longrightarrow> ''0123456789'' ! k \<in> set ''0123456789''"
    using nth_mem [of _ "''0123456789''"] by simp
  show ?case
  proof (cases "n < 10")
    case True
    with 1(2) d [of n] show ?thesis
      by (subst (asm) digits.simps) simp
  next
    case False
    have "n mod 10 < 10" by simp
    with False 1 d [of "n mod 10"] show ?thesis
      by (subst (asm) (2) digits.simps) auto
  qed
qed

lemma toFixed_chars: "c \<in> set (toFixed f x) \<Longrightarrow> c \<in> set ''0123456789.-''"
proof -
  assume c: "c \<in> set (toFixed f x)"
  have "set (fixed_body f (toFixed_n f x)) \<subseteq> set (digits (toFixed_n f x)) \<union> {CHR ''0'', CHR ''.''}"
    unfolding fixed_body_def Let_def
    by (auto dest!: in_set_takeD in_set_dropD split: if_splits)
  then have "c \<in> set (digits (toFixed_n f x)) \<union> {CHR ''0'', CHR ''.'', CHR ''-''}"
    using c by (auto simp: toFixed_body split: if_splits)
  then show ?thesis using digits_chars [of c "toFixed_n f x"] by auto
qed

lemma toFixed_not_word:
  "toFixed f x \<noteq> ''NaN''" "toFixed f x \<noteq> ''Infinity''" "toFixed f x \<noteq> ''-Infinity''"
proof -
  have n: "CHR ''N'' \<notin> set (toFixed f x)" using toFixed_chars [of "CHR ''N''" f x] by auto
  have i: "CHR ''I'' \<notin> set (toFixed f x)" using toFixed_chars [of "CHR ''I''" f x] by auto
  show "toFixed f x \<noteq> ''NaN''" using n by auto
  show "toFixed f x \<noteq> ''Infinity''" using i by auto
  show "toFixed f x \<noteq> ''-Infinity''" using i by auto
qed

lemma clamp_ext_cases:
  "Math_max_ext (Finite 0) (Math_min_ext (Finite 100) x) = NaN \<and> x = NaN \<or>
   (\<exists>a. Math_max_ext (Finite 0) (Math_min_ext (Finite 100) x) = Finite a \<and> 0 \<le> a \<and> a \<le> 100)"
  by (cases x) (simp_all add: Math_max_def Math_min_def)

lemma result_ext_between: "- OVERFLOW < r \<Longrightarrow> r < OVERFLOW \<Longrightarrow> result_ext r = Finite r"
  by (simp add: result_ext_def)

lemma levers_bounds:
  assumes "levers_at_most K p"
  shows "- K \<le> sales_growth_multiplier p" "sales_growth_multiplier p \<le> K"
    "- K \<le> expense_growth_multiplier p" "expense_growth_multiplier p \<le> K"
    "- K \<le> fraud_sensitivity p" "fraud_sensitivity p \<le> K"
    "- K \<le> supplier_delay_factor p" "supplier_delay_factor p \<le> K"
    "- K \<le> reorder_threshold_multiplier p" "reorder_threshold_multiplier p \<le> K"
  using assms by (simp_all add: levers_at_most_def abs_le_iff)

lemma revenueSeries_ext_val:
  assumes "1 \<le> K" and "1000000 * K < OVERFLOW" and "levers_at_most K p"
  shows "revenueSeries_ext p = map Finite (revenueSeries p)"
  using assms(1,2) levers_bounds(1,2) [OF assms(3)]
  by (simp add: revenueSeries_ext_def revenueSeries_val baseSeries_val result_ext_between)

lemma revenueSum_ext_val:
  assumes "1 \<le> K" and "1000000 * K < OVERFLOW" and "levers_at_most K p"
  shows "revenueSum_ext p = Finite (revenueSum p)"
  unfolding revenueSum_ext_def revenueSeries_ext_val [OF assms] revenueSeries_val revenueSum_val
  using assms(1,2) levers_bounds(1,2) [OF assms(3)]
  by (simp add: result_ext_between)

lemma expenseSum_ext_val:
  assumes "1 \<le> K" and "1000000 * K < OVERFLOW" and "levers_at_most K p"
  shows "expenseSum_ext p = Finite (expenseSum p)"
  using assms(1,2) levers_bounds(3,4) [OF assms(3)]
  by (simp add: expenseSum_ext_def simulatedExpenseTotal_ext_def expenseSum_def
      simulatedExpenseTotal_def baseExpense_val result_ext_between)

lemma projectedCash_ext_val:
  assumes "1 \<le> K" and "1000000 * K < OVERFLOW" and "levers_at_most K p"
  shows "projectedCash_ext p = Finite (projectedCash p)"
  unfolding projectedCash_ext_def revenueSum_ext_val [OF assms] expenseSum_ext_val [OF assms]
    projectedCash_def revenueSum_val expenseSum_def simulatedExpenseTotal_def baseExpense_val
  using assms(1,2) levers_bounds(1-4) [OF assms(3)]
  by (simp add: sub_ext_def result_ext_between)

lemma Math_round_near: "x - 1 \<le> Math_round x \<and> Math_round x \<le> x + 1"
  unfolding Math_round_def by linarith

lemma Math_round_ext_val:
  assumes "- OVERFLOW < x - 1" and "x + 1 < OVERFLOW"
  shows "Math_round_ext (Finite x) = Finite (Math_round x)"
  using Math_round_near [of x] assms by (simp add: result_ext_between)

lemma projected_cash_ext_val:
  assumes "1 \<le> K" and "1000000 * K < OVERFLOW" and "levers_at_most K p"
  shows "Math_round_ext (projectedCash_ext p) = Finite (Math_round (projectedCash p))"
  unfolding projectedCash_ext_val [OF assms]
proof (rule Math_round_ext_val)
  show "- OVERFLOW < projectedCash p - 1"
    unfolding projectedCash_val using assms(1,2) levers_bounds(1-4) [OF assms(3)] by linarith
  show "projectedCash p + 1 < OVERFLOW"
    unfolding projectedCash_val using assms(1,2) levers_bounds(1-4) [OF assms(3)] by linarith
qed

lemma revenueForecast_ext_val:
  assumes "1 \<le> K" and "1000000 * K < OVERFLOW" and "levers_at_most K p"
  shows "revenueForecast_ext p =
           map (\<lambda>pt. \<lparr> period_ext = period pt, val_ext = Finite (val pt) \<rparr>) (revenueForecast p)"
proof -
  let ?s = "sales_growth_multiplier p"
  have m: "Math_round_ext (Finite (c * ?s)) = Finite (Math_round (c * ?s))"
    if "c \<in> {70000, 72100, 74200, 76300}" for c
  proof (rule Math_round_ext_val)
    show "- OVERFLOW < c * ?s - 1"
      using that assms(1,2) levers_bounds(1,2) [OF assms(3)] by auto
    show "c * ?s + 1 < OVERFLOW"
      using that assms(1,2) levers_bounds(1,2) [OF assms(3)] by auto
  qed
  show ?thesis
    unfolding revenueForecast_ext_def revenueSeries_ext_val [OF assms] revenueSeries_val
      revenueForecast_val
    by (simp add: m String_of_number_def digits_small del: Math_round_ext.simps)
qed

lemma riskIndex_ext_val:
  assumes "1 \<le> K" and "1000000 * K < OVERFLOW" and "levers_at_most K p"
  shows "riskIndex_ext p = Finite (riskIndex p)"
  using assms(1,2) levers_bounds [OF assms(3)]
  by (simp add: riskIndex_ext_def rawRisk_ext_def fraudComponent_ext_def
      inventoryComponent_ext_def expenseComponent_ext_def sub_ext_def baseFraud_val
      riskIndex_def rawRisk_def fraudComponent_def inventoryComponent_def expenseComponent_def
      result_ext_between)

lemma riskDelta_ext_val:
  assumes "1 \<le> K" and "1000000 * K < OVERFLOW" and "levers_at_most K p"
  shows "riskDelta_ext p = Finite (riskDelta p)" and "\<bar>riskDelta p\<bar> \<le> 14"
proof -
  have r: "0 \<le> riskIndex p" "riskIndex p \<le> 100" using riskIndex_range [of p] by simp_all
  have d: "- 14 \<le> (riskIndex p - 40) / 4.5" "(riskIndex p - 40) / 4.5 \<le> 14"
    using r by simp_all
  have 1: "result_ext (riskIndex p - 40) = Finite (riskIndex p - 40)"
    using r assms(1,2) by (intro result_ext_between) linarith+
  have 2: "result_ext ((riskIndex p - 40) / 4.5) = Finite ((riskIndex p - 40) / 4.5)"
    using d assms(1,2) by (intro result_ext_between) linarith+
  have "div_ext (Finite (riskIndex p - 40)) (Finite 4.5) = result_ext ((riskIndex p - 40) / 4.5)"
    by simp
  then show "riskDelta_ext p = Finite (riskDelta p)"
    unfolding riskDelta_ext_def riskIndex_ext_val [OF assms] sub_ext_def riskDelta_def
    by (simp only: neg_ext.simps add_ext.simps 1 2 diff_conv_add_uminus [symmetric])
  show "\<bar>riskDelta p\<bar> \<le> 14"
    unfolding riskDelta_def using d by linarith
qed

lemma healthDelta_ext_val:
  assumes "1 \<le> K" and "1000000 * K < OVERFLOW" and "levers_at_most K p"
  shows "healthDelta_ext p = Finite (healthDelta p)" and "\<bar>healthDelta p\<bar> \<le> 100 * K"
proof -
  note b = levers_bounds [OF assms(3)]
  have a: "revenueVsExpenseDelta_ext p = Finite (revenueVsExpenseDelta p)"
    using assms(1,2) b
    by (simp add: revenueVsExpenseDelta_ext_def revenueVsExpenseDelta_def sub_ext_def
        result_ext_between)
  have ab: "- (36 * K) \<le> revenueVsExpenseDelta p" "revenueVsExpenseDelta p \<le> 36 * K"
    unfolding revenueVsExpenseDelta_def using b by auto
  have c: "supplierDelta_ext p = Finite (supplierDelta p)"
    using assms(1,2) b
    by (simp add: supplierDelta_ext_def supplierDelta_def sub_ext_def result_ext_between)
  have cb: "- (20 * K) \<le> supplierDelta p" "supplierDelta p \<le> 20 * K"
    unfolding supplierDelta_def using b assms(1) by auto
  have db: "- 14 \<le> riskDelta p" "riskDelta p \<le> 14"
    using riskDelta_ext_val(2) [OF assms] by auto
  have 1: "result_ext (revenueVsExpenseDelta p + riskDelta p) =
             Finite (revenueVsExpenseDelta p + riskDelta p)"
    using ab db assms(1,2) by (intro result_ext_between) linarith+
  have 2: "result_ext (revenueVsExpenseDelta p + riskDelta p + supplierDelta p) =
             Finite (revenueVsExpenseDelta p + riskDelta p + supplierDelta p)"
    using ab db cb assms(1,2) by (intro result_ext_between) linarith+
  show "healthDelta_ext p = Finite (healthDelta p)"
    unfolding healthDelta_ext_def a c riskDelta_ext_val(1) [OF assms] healthDelta_def
    by (simp only: add_ext.simps 1 2)
  show "\<bar>healthDelta p\<bar> \<le> 100 * K"
    unfolding healthDelta_def using ab db cb assms(1) by linarith
qed

lemma newHealth_ext_val:
  assumes "1 \<le> K" and "1000000 * K < OVERFLOW" and "levers_at_most K p"
  shows "newHealth_ext p = Finite (newHealth p)"
proof -
  have h: "\<bar>healthDelta p\<bar> \<le> 100 * K" by (rule healthDelta_ext_val(2) [OF assms])
  have 1: "result_ext (baseHealth + healthDelta p) = Finite (baseHealth + healthDelta p)"
    unfolding baseHealth_val using h assms(1,2) by (intro result_ext_between) linarith+
  show ?thesis
    unfolding newHealth_ext_def healthDelta_ext_val(1) [OF assms] newHealth_def
    by (simp only: add_ext.simps 1 Math_min_ext.simps Math_max_ext.simps)
qed

lemma deltaFromBase_ext_val:
  assumes "1 \<le> K" and "1000000 * K < OVERFLOW" and "levers_at_most K p"
  shows "deltaFromBase_ext p = Finite (deltaFromBase p)"
  unfolding deltaFromBase_ext_def newHealth_ext_val [OF assms] deltaFromBase_def baseHealth_val
  using assms(1,2) newHealth_range [of p]
  by (simp add: sub_ext_def result_ext_between)

lemma parseFloat_ext_toFixed: "parseFloat_ext (toFixed f x) = Finite (parseFloat (toFixed f x))"
  by (simp add: parseFloat_ext_def toFixed_not_word)

lemma runLocalSimulation_ext_val:
  assumes "1 \<le> K" and "1000000 * K < OVERFLOW" and "levers_at_most K p"
  shows "runLocalSimulation_ext p =
     \<lparr> new_health_score_ext = Finite (new_health_score (runLocalSimulation p)),
       delta_from_base_ext = Finite (delta_from_base (runLocalSimulation p)),
       projected_cash_ext = Finite (projected_cash (runLocalSimulation p)),
       risk_index_ext = Finite (risk_index (runLocalSimulation p)),
       revenue_forecast_ext =
         map (\<lambda>pt. \<lparr> period_ext = period pt, val_ext = Finite (val pt) \<rparr>)
           (revenue_forecast (runLocalSimulation p)) \<rparr>"
  by (simp add: runLocalSimulation_ext_def runLocalSimulation_def
      newHealth_ext_val [OF assms] deltaFromBase_ext_val [OF assms] riskIndex_ext_val [OF assms]
      projected_cash_ext_val [OF assms] revenueForecast_ext_val [OF assms]
      parseFloat_ext_toFixed del: One_nat_def)

lemma levers_in_range:
  assumes "levers_at_most (10 ^ 300) p"
  shows "runLocalSimulation_ext p =
     \<lparr> new_health_score_ext = Finite (new_health_score (runLocalSimulation p)),
       delta_from_base_ext = Finite (delta_from_base (runLocalSimulation p)),
       projected_cash_ext = Finite (projected_cash (runLocalSimulation p)),
       risk_index_ext = Finite (risk_index (runLocalSimulation p)),
       revenue_forecast_ext =
         map (\<lambda>pt. \<lparr> period_ext = period pt, val_ext = Finite (val pt) \<rparr>)
           (revenue_forecast (runLocalSimulation p)) \<rparr>"
proof (rule runLocalSimulation_ext_val [OF _ _ assms])
  show "(1::real) \<le> 10 ^ 300" by simp
  show "1000000 * 10 ^ 300 < OVERFLOW" by (rule OVERFLOW_big)
qed

lemma OVERFLOW_100: "100 < OVERFLOW"
  using OVERFLOW_big by simp

lemma parseFloat_ext_words:
  "parseFloat_ext ''NaN'' = NaN" "parseFloat_ext ''Infinity'' = Infinity"
  "parseFloat_ext ''-Infinity'' = NegInfinity"
  by (simp_all add: parseFloat_ext_def)

lemma add_ext_NaN: "add_ext x NaN = NaN" "add_ext NaN x = NaN"
  by (cases x; simp)+


lemma round1_ext_one_decimal:
  assumes "x = NaN \<or> (\<exists>a. x = Finite a)"
  shows "parseFloat_ext (toFixed_ext 1 x) = NaN \<or> one_decimal (parseFloat_ext (toFixed_ext 1 x))"
proof -
  consider "x = NaN" | a where "x = Finite a" using assms by blast
  then show ?thesis
  proof cases
    case 1
    then show ?thesis by (simp add: parseFloat_ext_words)
  next
    case 2
    have "parseFloat_ext (toFixed_ext 1 x) = Finite (parseFloat (toFixed 1 a))"
      using 2 by (simp add: parseFloat_ext_toFixed del: One_nat_def)
    then show ?thesis using one_decimal_tenth [of a] by simp
  qed
qed

lemma riskIndex_ext_shape:
  "riskIndex_ext p = NaN \<or> (\<exists>a. riskIndex_ext p = Finite a \<and> 0 \<le> a \<and> a \<le> 100)"
  unfolding riskIndex_ext_def using clamp_ext_cases [of "rawRisk_ext p"] by blast

lemma newHealth_ext_shape:
  "newHealth_ext p = NaN \<or> (\<exists>a. newHealth_ext p = Finite a \<and> 0 \<le> a \<and> a \<le> 100)"
  unfolding newHealth_ext_def
  using clamp_ext_cases [of "add_ext (Finite baseHealth) (healthDelta_ext p)"] by blast

lemma deltaFromBase_ext_shape:
  "deltaFromBase_ext p = NaN \<or> (\<exists>a. deltaFromBase_ext p = Finite a)"
proof -
  consider "newHealth_ext p = NaN" | a where "newHealth_ext p = Finite a" "0 \<le> a" "a \<le> 100"
    using newHealth_ext_shape [of p] by blast
  then show ?thesis
  proof cases
    case 1
    then show ?thesis by (simp add: deltaFromBase_ext_def sub_ext_def)
  next
    case 2
    have "result_ext (a - baseHealth) = Finite (a - baseHealth)"
      unfolding baseHealth_val using 2 OVERFLOW_100 by (intro result_ext_between) linarith+
    then show ?thesis using 2 by (simp add: deltaFromBase_ext_def sub_ext_def)
  qed
qed

lemma Math_round_result_shape:
  "integral (result_ext (Math_round r)) \<or> result_ext (Math_round r) = Infinity \<or>
   result_ext (Math_round r) = NegInfinity"
  by (simp add: result_ext_def Math_round_int)

lemma Math_round_ext_shape:
  "integral (Math_round_ext x) \<or> Math_round_ext x = Infinity \<or>
   Math_round_ext x = NegInfinity \<or> Math_round_ext x = NaN"
  using Math_round_result_shape by (cases x) auto

lemma Math_round_ext_product_shape:
  "integral (Math_round_ext (mul_ext (Finite v) (Finite s))) \<or>
   Math_round_ext (mul_ext (Finite v) (Finite s)) = Infinity \<or>
   Math_round_ext (mul_ext (Finite v) (Finite s)) = NegInfinity"
  using Math_round_result_shape [of "v * s"]
  by (auto simp: result_ext_def)


lemma output_rounding:
  "10 * new_health_score (runLocalSimulation p) \<in> \<int> \<and>
   10 * delta_from_base (runLocalSimulation p) \<in> \<int> \<and>
   10 * risk_index (runLocalSimulation p) \<in> \<int> \<and>
   projected_cash (runLocalSimulation p) \<in> \<int> \<and>
   list_all (\<lambda>pt. val pt \<in> \<int>) (revenue_forecast (runLocalSimulation p))"
  using one_decimal_tenth [of "newHealth p"] one_decimal_tenth [of "deltaFromBase p"]
    one_decimal_tenth [of "riskIndex p"]
  by (simp add: runLocalSimulation_def revenueForecast_val Math_round_int del: One_nat_def)

lemma OVERFLOW_308: "(2::real) \<le> 10 ^ 308" "10 ^ 308 + 1 < OVERFLOW" "OVERFLOW < 2 * 10 ^ 308"
  by (simp_all add: OVERFLOW_def)

lemma levers_DEFAULT_PARAMS: "1 \<le> K \<Longrightarrow> levers_at_most K DEFAULT_PARAMS"
  by (simp add: levers_at_most_def DEFAULT_PARAMS_def)

lemma levers_DEFAULT_PARAMS_300: "levers_at_most (10 ^ 300) DEFAULT_PARAMS"
  by (rule levers_DEFAULT_PARAMS) simp

lemma overflow_risk_NaN:
  assumes "2 \<le> T" and "T + 1 < OVERFLOW" and "OVERFLOW < 2 * T"
    and "supplier_delay_factor p = T" and "reorder_threshold_multiplier p = - T"
  shows "riskIndex_ext p = NaN" and "newHealth_ext p = NaN" and "deltaFromBase_ext p = NaN"
proof -
  have 1: "result_ext (T - 1) = Finite (T - 1)"
    using assms(1,2) by (intro result_ext_between) linarith+
  have 2: "result_ext ((T - 1) * 40) = Infinity"
    using assms(1,3) by (simp add: result_ext_def)
  have 3: "result_ext (- T - 1) = Finite (- T - 1)"
    using assms(1,2,3) by (intro result_ext_between) linarith+
  have "\<not> OVERFLOW \<le> (- T - 1) * 25" and "(- T - 1) * 25 \<le> - OVERFLOW"
    using assms(1,2,3) by auto
  then have 4: "result_ext ((- T - 1) * 25) = NegInfinity"
    by (simp only: result_ext_def if_True if_False)
  have "inventoryComponent_ext p =
          add_ext (mul_ext (result_ext (T - 1)) (Finite 40)) (mul_ext (result_ext (- T - 1)) (Finite 25))"
    by (simp add: inventoryComponent_ext_def sub_ext_def assms(4,5))
  then have i: "inventoryComponent_ext p = NaN"
    unfolding 1 3 by (simp only: mul_ext.simps 2 4 add_ext.simps)
  show r: "riskIndex_ext p = NaN"
    unfolding riskIndex_ext_def rawRisk_ext_def i by (simp add: add_ext_NaN)
  have d: "riskDelta_ext p = NaN"
    unfolding riskDelta_ext_def r by (simp add: sub_ext_def add_ext_NaN)
  show h: "newHealth_ext p = NaN"
    unfolding newHealth_ext_def healthDelta_ext_def d by (simp add: add_ext_NaN)
  show "deltaFromBase_ext p = NaN"
    unfolding deltaFromBase_ext_def h by (simp add: sub_ext_def add_ext_NaN)
qed

lemma overflow_cash_NaN:
  assumes "2 \<le> T" and "T + 1 < OVERFLOW" and "OVERFLOW < 2 * T"
    and "sales_growth_multiplier p = T" and "expense_growth_multiplier p = T"
  shows "Math_round_ext (projectedCash_ext p) = NaN"
    and "map val_ext (revenueForecast_ext p) = [Infinity, Infinity, Infinity, Infinity]"
proof -
  have m: "result_ext (c * T) = Infinity" if "2 \<le> c" for c
  proof -
    have "2 * T \<le> c * T" using that assms(1) by (intro mult_right_mono) auto
    then show ?thesis using assms(3) by (simp add: result_ext_def)
  qed
  have s: "revenueSeries_ext p = [Infinity, Infinity, Infinity, Infinity]"
    by (simp add: revenueSeries_ext_def baseSeries_val assms(4) m)
  have e: "expenseSum_ext p = Infinity"
    by (simp add: expenseSum_ext_def simulatedExpenseTotal_ext_def baseExpense_val assms(5) m)
  have "projectedCash_ext p = NaN"
    unfolding projectedCash_ext_def revenueSum_ext_def s e by (simp add: sub_ext_def)
  then show "Math_round_ext (projectedCash_ext p) = NaN" by simp
  show "map val_ext (revenueForecast_ext p) = [Infinity, Infinity, Infinity, Infinity]"
    unfolding revenueForecast_ext_def s by simp
qed

section \<open>The claims\<close>

text \<open>
  C1, as amended. When all five multipliers equal 1.0 the simulation does not return the
  base health score: the neutral risk index is \<open>10 * 0.6 = 6\<close>, which lies 34 below the
  reference point 40 of \<open>riskDelta\<close>, so \<open>34 / 4.5\<close> is added to the base score 75. The
  result has \<open>new_health_score = 82.6\<close> and \<open>delta_from_base = 7.6\<close>; its
  \<open>explanation_summary\<close> is the fixed fallback sentence.
\<close>

theorem C1_neutral_amended:
  assumes "sales_growth_multiplier p = 1" "expense_growth_multiplier p = 1"
    "fraud_sensitivity p = 1" "supplier_delay_factor p = 1" "reorder_threshold_multiplier p = 1"
  shows "new_health_score (runLocalSimulation p) = 82.6 \<and>
         delta_from_base (runLocalSimulation p) = 7.6 \<and>
         explanation_summary (runLocalSimulation p) = fallback_sentence"
proof -
  note n = neutral_params [OF assms]
  have h: "parseFloat (toFixed 1 (newHealth p)) = 82.6"
    unfolding n by (subst one_decimal_nonneg) simp_all
  have d: "parseFloat (toFixed 1 (deltaFromBase p)) = 7.6"
    unfolding deltaFromBase_def n baseHealth_val by (subst one_decimal_nonneg) simp_all
  have e: "explanation_summary_of p = fallback_sentence"
    by (simp add: explanation_summary_of_def n)
  show ?thesis by (simp add: runLocalSimulation_def h d e del: One_nat_def)
qed

text \<open>
  The amended C1 at the panel's \<open>DEFAULT_PARAMS\<close>, with the fallback sentence written out.
\<close>

theorem C1_neutral_amended_witness:
  "new_health_score (runLocalSimulation DEFAULT_PARAMS) = 82.6 \<and>
   delta_from_base (runLocalSimulation DEFAULT_PARAMS) = 7.6 \<and>
   explanation_summary (runLocalSimulation DEFAULT_PARAMS) =
     ''Simulation uses current baseline assumptions to project revenue, cash and risk over the next four periods.''"
  using C1_neutral_amended [of DEFAULT_PARAMS]
  by (simp add: DEFAULT_PARAMS_def fallback_sentence_def)

text \<open>
  C1 as the specification states it fails at \<open>DEFAULT_PARAMS\<close>: the returned health score
  is not the base health score of the result's own metadata (82.6 against 75), and the
  returned delta is not 0 (it is 7.6).
\<close>

theorem C1_neutral_counterexample:
  "new_health_score (runLocalSimulation DEFAULT_PARAMS) \<noteq>
     base_health_score (metadata (runLocalSimulation DEFAULT_PARAMS)) \<and>
   delta_from_base (runLocalSimulation DEFAULT_PARAMS) \<noteq> 0"
proof -
  have n: "newHealth DEFAULT_PARAMS = 75 + 34 / 4.5"
    by (rule neutral_params) (simp_all add: DEFAULT_PARAMS_def)
  have h: "parseFloat (toFixed 1 (newHealth DEFAULT_PARAMS)) = 82.6"
    unfolding n by (subst one_decimal_nonneg) simp_all
  have d: "parseFloat (toFixed 1 (deltaFromBase DEFAULT_PARAMS)) = 7.6"
    unfolding deltaFromBase_def n baseHealth_val by (subst one_decimal_nonneg) simp_all
  have "new_health_score (runLocalSimulation DEFAULT_PARAMS) = 82.6"
    by (simp add: runLocalSimulation_def h del: One_nat_def)
  moreover have "delta_from_base (runLocalSimulation DEFAULT_PARAMS) = 7.6"
    by (simp add: runLocalSimulation_def d del: One_nat_def)
  moreover have "base_health_score (metadata (runLocalSimulation DEFAULT_PARAMS)) = 75"
    by (simp add: runLocalSimulation_def baseResult_def)
  ultimately show ?thesis by simp
qed




text \<open>
  C3. With the baseline of the panel (health 75, expense 50000, fraud rate 10, starting
  cash 100000) and all multipliers 1.0, the revenue forecast is P1: 70000, P2: 72100,
  P3: 74200, P4: 76300, each value being \<open>50000 * 1.4 * (1 + 0.03 * i)\<close> rounded to an
  integer, and the risk index is 6.0.
\<close>

theorem C3_baseline_scenario:
  "metadata (runLocalSimulation DEFAULT_PARAMS) =
     \<lparr> base_health_score = 75, base_expense_total = 50000, fraud_rate_percent = 10 \<rparr> \<and>
   revenue_forecast (runLocalSimulation DEFAULT_PARAMS) =
     [\<lparr> period = ''P1'', val = 70000 \<rparr>, \<lparr> period = ''P2'', val = 72100 \<rparr>,
      \<lparr> period = ''P3'', val = 74200 \<rparr>, \<lparr> period = ''P4'', val = 76300 \<rparr>] \<and>
   map val (revenue_forecast (runLocalSimulation DEFAULT_PARAMS)) =
     map (\<lambda>i. Math_round (50000 * 1.4 * (1 + 0.03 * real i))) [0, 1, 2, 3] \<and>
   risk_index (runLocalSimulation DEFAULT_PARAMS) = 6.0"
proof -
  have s: "sales_growth_multiplier DEFAULT_PARAMS = 1" by (simp add: DEFAULT_PARAMS_def)
  have r: "riskIndex DEFAULT_PARAMS = 6"
    by (rule neutral_params) (simp_all add: DEFAULT_PARAMS_def)
  have ri: "parseFloat (toFixed 1 (riskIndex DEFAULT_PARAMS)) = 6"
    unfolding r by (subst one_decimal_nonneg) simp_all
  have f: "revenueForecast DEFAULT_PARAMS =
     [\<lparr> period = ''P1'', val = 70000 \<rparr>, \<lparr> period = ''P2'', val = 72100 \<rparr>,
      \<lparr> period = ''P3'', val = 74200 \<rparr>, \<lparr> period = ''P4'', val = 76300 \<rparr>]"
    unfolding revenueForecast_val s by (simp add: Math_round_def)
  have m: "map (\<lambda>i. Math_round (50000 * 1.4 * (1 + 0.03 * real i))) [0, 1, 2, 3]
             = [70000, 72100, 74200, 76300]"
    by (simp add: Math_round_def)
  show ?thesis
    unfolding m by (simp add: runLocalSimulation_def f ri baseResult_def del: One_nat_def)
qed

text \<open>
  C4. Monotonicity in the sales growth lever: if two parameter vectors agree on the four
  other levers and the second has the larger \<open>sales_growth_multiplier\<close>, then period by
  period the second forecast value is not smaller than the first, and the second
  \<open>projected_cash\<close> is not smaller than the first.
\<close>

theorem C4_sales_growth_monotone:
  assumes "expense_growth_multiplier q = expense_growth_multiplier p"
    and "fraud_sensitivity q = fraud_sensitivity p"
    and "supplier_delay_factor q = supplier_delay_factor p"
    and "reorder_threshold_multiplier q = reorder_threshold_multiplier p"
    and "sales_growth_multiplier p < sales_growth_multiplier q"
  shows "list_all2 (\<lambda>a b. period a = period b \<and> val a \<le> val b)
           (revenue_forecast (runLocalSimulation p)) (revenue_forecast (runLocalSimulation q)) \<and>
         projected_cash (runLocalSimulation p) \<le> projected_cash (runLocalSimulation q)"
proof -
  have c: "projectedCash p \<le> projectedCash q"
    using assms by (simp add: projectedCash_val)
  have "list_all2 (\<lambda>a b. period a = period b \<and> val a \<le> val b) (revenueForecast p) (revenueForecast q)"
    using assms(5) by (simp add: revenueForecast_val Math_round_mono)
  then show ?thesis
    using Math_round_mono [OF c] by (simp add: runLocalSimulation_def)
qed

text \<open>
  C4 at \<open>DEFAULT_PARAMS\<close> against sales growth 1.2, with both results computed.
\<close>

theorem C4_sales_growth_monotone_witness:
  "map val (revenue_forecast (runLocalSimulation DEFAULT_PARAMS)) = [70000, 72100, 74200, 76300] \<and>
   map val (revenue_forecast (runLocalSimulation (DEFAULT_PARAMS\<lparr>sales_growth_multiplier := 1.2\<rparr>)))
     = [84000, 86520, 89040, 91560] \<and>
   projected_cash (runLocalSimulation DEFAULT_PARAMS) = 192600 \<and>
   projected_cash (runLocalSimulation (DEFAULT_PARAMS\<lparr>sales_growth_multiplier := 1.2\<rparr>)) = 251120 \<and>
   list_all2 (\<lambda>a b. period a = period b \<and> val a \<le> val b)
     (revenue_forecast (runLocalSimulation DEFAULT_PARAMS))
     (revenue_forecast (runLocalSimulation (DEFAULT_PARAMS\<lparr>sales_growth_multiplier := 1.2\<rparr>))) \<and>
   projected_cash (runLocalSimulation DEFAULT_PARAMS)
     \<le> projected_cash (runLocalSimulation (DEFAULT_PARAMS\<lparr>sales_growth_multiplier := 1.2\<rparr>))"
proof -
  let ?q = "DEFAULT_PARAMS\<lparr>sales_growth_multiplier := 1.2\<rparr>"
  have m: "list_all2 (\<lambda>a b. period a = period b \<and> val a \<le> val b)
     (revenue_forecast (runLocalSimulation DEFAULT_PARAMS)) (revenue_forecast (runLocalSimulation ?q)) \<and>
     projected_cash (runLocalSimulation DEFAULT_PARAMS) \<le> projected_cash (runLocalSimulation ?q)"
    by (rule C4_sales_growth_monotone) (simp_all add: DEFAULT_PARAMS_def)
  have v: "map val (revenue_forecast (runLocalSimulation DEFAULT_PARAMS)) = [70000, 72100, 74200, 76300]"
    "map val (revenue_forecast (runLocalSimulation ?q)) = [84000, 86520, 89040, 91560]"
    "projected_cash (runLocalSimulation DEFAULT_PARAMS) = 192600"
    "projected_cash (runLocalSimulation ?q) = 251120"
    by (simp_all add: runLocalSimulation_def revenueForecast_val projectedCash_val
        DEFAULT_PARAMS_def Math_round_def)
  from m v show ?thesis by blast
qed

text \<open>
  C5. For every parameter vector, \<open>projected_cash\<close> is the starting cash 100000 plus the
  sum of the four revenue values minus \<open>base_expense_total * expense_growth_multiplier * 4\<close>,
  rounded to an integer and not clamped. The revenue values summed are those of
  \<open>revenueSeries\<close>, before the forecast rounds them, as in the specification's
  \<open>revenue_sum\<close>. The cash can be negative: with expense growth 2.0 and the other levers
  neutral it is \<open>-7400\<close>.
\<close>

theorem C5_projected_cash_formula:
  "length (revenueSeries p) = 4 \<and>
   projected_cash (runLocalSimulation p) =
     Math_round (100000 + sum_list (revenueSeries p)
       - base_expense_total (metadata baseResult) * expense_growth_multiplier p * 4) \<and>
   projected_cash (runLocalSimulation (DEFAULT_PARAMS\<lparr>expense_growth_multiplier := 2\<rparr>)) = - 7400 \<and>
   (\<exists>q. projected_cash (runLocalSimulation q) < 0)"
proof -
  have a: "length (revenueSeries p) = 4" by (simp add: revenueSeries_val)
  have b: "projected_cash (runLocalSimulation p) =
     Math_round (100000 + sum_list (revenueSeries p)
       - base_expense_total (metadata baseResult) * expense_growth_multiplier p * 4)"
    by (simp add: runLocalSimulation_def projectedCash_val revenueSeries_val baseResult_def)
  have c: "projected_cash (runLocalSimulation (DEFAULT_PARAMS\<lparr>expense_growth_multiplier := 2\<rparr>)) = - 7400"
    by (simp add: runLocalSimulation_def projectedCash_val DEFAULT_PARAMS_def Math_round_def)
  then have "projected_cash (runLocalSimulation (DEFAULT_PARAMS\<lparr>expense_growth_multiplier := 2\<rparr>)) < 0"
    by simp
  then have d: "\<exists>q. projected_cash (runLocalSimulation q) < 0" by blast
  from a b c d show ?thesis by blast
qed

text \<open>
  C6. For every parameter vector the explanation is the one the specification words:
  the sentences of exactly the levers that differ from 1.0 (tested by equality), in the
  order sales growth, expense growth, fraud sensitivity, supply chain, with single spaces
  between them; supplier delay and reorder threshold share one sentence, present when
  either differs; and the fallback sentence when no lever differs. It is never empty.
\<close>

theorem C6_explanation_composition:
  "explanation_summary (runLocalSimulation p) = spec_explanation p \<and>
   explanation_summary (runLocalSimulation p) \<noteq> []"
proof -
  let ?parts = "explanationParts p"
  have e: "explanation_summary (runLocalSimulation p) =
             (if spaced ?parts = [] then fallback_sentence else spaced ?parts)"
    by (simp add: runLocalSimulation_def explanation_summary_of_def join_spaced)
  have z: "spaced ?parts = [] \<longleftrightarrow> ?parts = []"
    using spaced_nonempty [of ?parts] explanationParts_hd [of p] by (auto simp: spaced_def)
  have "explanation_summary (runLocalSimulation p) = spec_explanation p"
    unfolding e z by (simp add: spec_explanation_def explanationParts_spec)
  moreover have "explanation_summary (runLocalSimulation p) \<noteq> []"
    unfolding e using z by simp
  ultimately show ?thesis by simp
qed

text \<open>
  C6 at sales growth 0.9, fraud sensitivity 1.25 and reorder threshold 0.5: three
  sentences, the expense sentence left out.
\<close>

theorem C6_explanation_composition_witness:
  "spec_explanation (DEFAULT_PARAMS\<lparr>sales_growth_multiplier := 0.9, fraud_sensitivity := 1.25,
      reorder_threshold_multiplier := 0.5\<rparr>) =
     ''Sales growth reduced by 10% which compresses projected revenue. Fraud sensitivity set to 1.25 changes how strongly fraud findings influence the unified risk index. Supply-chain levers (supplier delays and reorder thresholds) adjust inventory risk and slightly affect overall health.'' \<and>
   explanation_summary (runLocalSimulation (DEFAULT_PARAMS\<lparr>sales_growth_multiplier := 0.9,
      fraud_sensitivity := 1.25, reorder_threshold_multiplier := 0.5\<rparr>)) =
     ''Sales growth reduced by 10% which compresses projected revenue. Fraud sensitivity set to 1.25 changes how strongly fraud findings influence the unified risk index. Supply-chain levers (supplier delays and reorder thresholds) adjust inventory risk and slightly affect overall health.''"
proof -
  let ?p = "DEFAULT_PARAMS\<lparr>sales_growth_multiplier := 0.9, fraud_sensitivity := 1.25,
      reorder_threshold_multiplier := 0.5\<rparr>"
  have s: "sales_sentence 0.9 = ''Sales growth reduced by 10% which compresses projected revenue.''"
    by (simp add: sales_sentence_def Math_round_def Math_abs_def String_of_number_def digits.simps)
  have f: "toFixed 2 (5 / 4) = ''1.25''"
    by (simp add: toFixed_def toFixed_n_def digits.simps Let_def)
  have "spec_explanation ?p =
     ''Sales growth reduced by 10% which compresses projected revenue. Fraud sensitivity set to 1.25 changes how strongly fraud findings influence the unified risk index. Supply-chain levers (supplier delays and reorder thresholds) adjust inventory risk and slightly affect overall health.''"
    by (simp add: spec_explanation_def spec_levers_def DEFAULT_PARAMS_def spaced_def s f
        fraud_sentence_def supply_sentence_def)
  then show ?thesis using C6_explanation_composition [of ?p] by simp
qed

text \<open>
  C7. With \<open>expense_growth_multiplier = 1.3\<close> and every other multiplier 1.0, the risk
  index is the all-neutral risk index plus \<open>(1.3 - 1) * 60 = 18\<close>, and the explanation
  contains the sentence about increased expense pressure (it is that sentence).
\<close>

theorem C7_expense_growth_scenario:
  "risk_index (runLocalSimulation (DEFAULT_PARAMS\<lparr>expense_growth_multiplier := 1.3\<rparr>)) =
     risk_index (runLocalSimulation DEFAULT_PARAMS) + (1.3 - 1) * 60 \<and>
   risk_index (runLocalSimulation (DEFAULT_PARAMS\<lparr>expense_growth_multiplier := 1.3\<rparr>)) =
     risk_index (runLocalSimulation DEFAULT_PARAMS) + 18 \<and>
   sublist ''Expenses are projected to grow by 30%, creating additional pressure on cash and health.''
     (explanation_summary (runLocalSimulation (DEFAULT_PARAMS\<lparr>expense_growth_multiplier := 1.3\<rparr>)))"
proof -
  let ?q = "DEFAULT_PARAMS\<lparr>expense_growth_multiplier := 1.3\<rparr>"
  have r0: "riskIndex DEFAULT_PARAMS = 6"
    by (rule neutral_params) (simp_all add: DEFAULT_PARAMS_def)
  have r1: "riskIndex ?q = 24"
    by (simp add: riskIndex_def rawRisk_def fraudComponent_def inventoryComponent_def
        expenseComponent_def baseFraud_val Math_max_def Math_min_def DEFAULT_PARAMS_def)
  have i0: "risk_index (runLocalSimulation DEFAULT_PARAMS) = 6"
    unfolding runLocalSimulation_def r0 by (subst one_decimal_nonneg) simp_all
  have i1: "risk_index (runLocalSimulation ?q) = 24"
    unfolding runLocalSimulation_def r1 by (subst one_decimal_nonneg) simp_all
  have s: "expense_sentence (13 / 10) =
     ''Expenses are projected to grow by 30%, creating additional pressure on cash and health.''"
    by (simp add: expense_sentence_def Math_round_def String_of_number_def digits.simps)
  have "explanationParts ?q = [expense_sentence (13 / 10)]"
    by (simp add: explanationParts_def DEFAULT_PARAMS_def)
  then have e: "explanation_summary (runLocalSimulation ?q) =
     ''Expenses are projected to grow by 30%, creating additional pressure on cash and health.''"
    by (simp add: runLocalSimulation_def explanation_summary_of_def s)
  show ?thesis unfolding i0 i1 e by simp
qed

text \<open>
  C8, as amended. For every parameter vector, each of \<open>new_health_score\<close>,
  \<open>delta_from_base\<close> and \<open>risk_index\<close> is \<open>NaN\<close> or has one decimal digit (ten times the
  value is an integer); \<open>projected_cash\<close> is an integer, an infinity or \<open>NaN\<close>; and every
  value of \<open>revenue_forecast\<close> is an integer or an infinity. All of them are finite, so
  one-decimal and integral as the specification says, whenever every multiplier has
  magnitude at most \<open>10^300\<close>, which covers the ranges of the panel's sliders.
\<close>

theorem C8_output_rounding_unless_non_finite:
  "(new_health_score_ext (runLocalSimulation_ext p) = NaN \<or>
      one_decimal (new_health_score_ext (runLocalSimulation_ext p))) \<and>
   (delta_from_base_ext (runLocalSimulation_ext p) = NaN \<or>
      one_decimal (delta_from_base_ext (runLocalSimulation_ext p))) \<and>
   (risk_index_ext (runLocalSimulation_ext p) = NaN \<or>
      one_decimal (risk_index_ext (runLocalSimulation_ext p))) \<and>
   (integral (projected_cash_ext (runLocalSimulation_ext p)) \<or>
      projected_cash_ext (runLocalSimulation_ext p) = Infinity \<or>
      projected_cash_ext (runLocalSimulation_ext p) = NegInfinity \<or>
      projected_cash_ext (runLocalSimulation_ext p) = NaN) \<and>
   list_all (\<lambda>pt. integral (val_ext pt) \<or> val_ext pt = Infinity \<or> val_ext pt = NegInfinity)
     (revenue_forecast_ext (runLocalSimulation_ext p)) \<and>
   (levers_at_most (10 ^ 300) p \<longrightarrow>
      one_decimal (new_health_score_ext (runLocalSimulation_ext p)) \<and>
      one_decimal (delta_from_base_ext (runLocalSimulation_ext p)) \<and>
      one_decimal (risk_index_ext (runLocalSimulation_ext p)) \<and>
      integral (projected_cash_ext (runLocalSimulation_ext p)) \<and>
      list_all (\<lambda>pt. integral (val_ext pt)) (revenue_forecast_ext (runLocalSimulation_ext p)))"
proof -
  have sh: "\<And>x. x = NaN \<or> (\<exists>a. x = Finite a \<and> 0 \<le> a \<and> a \<le> 100) \<Longrightarrow> x = NaN \<or> (\<exists>a. x = Finite a)"
    by blast
  have h: "new_health_score_ext (runLocalSimulation_ext p) = NaN \<or>
      one_decimal (new_health_score_ext (runLocalSimulation_ext p))"
    using round1_ext_one_decimal [OF sh [OF newHealth_ext_shape [of p]]]
    by (simp add: runLocalSimulation_ext_def del: One_nat_def)
  have d: "delta_from_base_ext (runLocalSimulation_ext p) = NaN \<or>
      one_decimal (delta_from_base_ext (runLocalSimulation_ext p))"
    using round1_ext_one_decimal [OF deltaFromBase_ext_shape [of p]]
    by (simp add: runLocalSimulation_ext_def del: One_nat_def)
  have r: "risk_index_ext (runLocalSimulation_ext p) = NaN \<or>
      one_decimal (risk_index_ext (runLocalSimulation_ext p))"
    using round1_ext_one_decimal [OF sh [OF riskIndex_ext_shape [of p]]]
    by (simp add: runLocalSimulation_ext_def del: One_nat_def)
  have c: "integral (projected_cash_ext (runLocalSimulation_ext p)) \<or>
      projected_cash_ext (runLocalSimulation_ext p) = Infinity \<or>
      projected_cash_ext (runLocalSimulation_ext p) = NegInfinity \<or>
      projected_cash_ext (runLocalSimulation_ext p) = NaN"
    using Math_round_ext_shape [of "projectedCash_ext p"]
    by (simp add: runLocalSimulation_ext_def)
  have f: "list_all (\<lambda>pt. integral (val_ext pt) \<or> val_ext pt = Infinity \<or> val_ext pt = NegInfinity)
     (revenue_forecast_ext (runLocalSimulation_ext p))"
    using Math_round_ext_product_shape [of _ "sales_growth_multiplier p"]
    by (simp add: runLocalSimulation_ext_def revenueForecast_ext_def revenueSeries_ext_def
        baseSeries_val del: mul_ext.simps Math_round_ext.simps)
  have b: "one_decimal (new_health_score_ext (runLocalSimulation_ext p)) \<and>
      one_decimal (delta_from_base_ext (runLocalSimulation_ext p)) \<and>
      one_decimal (risk_index_ext (runLocalSimulation_ext p)) \<and>
      integral (projected_cash_ext (runLocalSimulation_ext p)) \<and>
      list_all (\<lambda>pt. integral (val_ext pt)) (revenue_forecast_ext (runLocalSimulation_ext p))"
    if "levers_at_most (10 ^ 300) p"
    unfolding levers_in_range [OF that] using output_rounding [of p]
    by (simp add: list_all_iff)
  from h d r c f b show ?thesis by blast
qed

text \<open>
  The amended C8 at \<open>DEFAULT_PARAMS\<close>, with the five outputs written out.
\<close>

theorem C8_output_rounding_unless_non_finite_witness:
  "levers_at_most (10 ^ 300) DEFAULT_PARAMS \<and>
   new_health_score_ext (runLocalSimulation_ext DEFAULT_PARAMS) = Finite 82.6 \<and>
   delta_from_base_ext (runLocalSimulation_ext DEFAULT_PARAMS) = Finite 7.6 \<and>
   risk_index_ext (runLocalSimulation_ext DEFAULT_PARAMS) = Finite 6 \<and>
   projected_cash_ext (runLocalSimulation_ext DEFAULT_PARAMS) = Finite 192600 \<and>
   map val_ext (revenue_forecast_ext (runLocalSimulation_ext DEFAULT_PARAMS)) =
     [Finite 70000, Finite 72100, Finite 74200, Finite 76300] \<and>
   one_decimal (new_health_score_ext (runLocalSimulation_ext DEFAULT_PARAMS)) \<and>
   one_decimal (delta_from_base_ext (runLocalSimulation_ext DEFAULT_PARAMS)) \<and>
   one_decimal (risk_index_ext (runLocalSimulation_ext DEFAULT_PARAMS)) \<and>
   integral (projected_cash_ext (runLocalSimulation_ext DEFAULT_PARAMS)) \<and>
   list_all (\<lambda>pt. integral (val_ext pt)) (revenue_forecast_ext (runLocalSimulation_ext DEFAULT_PARAMS))"
proof -
  note l = levers_DEFAULT_PARAMS_300
  have n: "riskIndex DEFAULT_PARAMS = 6" "newHealth DEFAULT_PARAMS = 75 + 34 / 4.5"
    by (rule neutral_params; simp add: DEFAULT_PARAMS_def)+
  have s: "sales_growth_multiplier DEFAULT_PARAMS = 1" "expense_growth_multiplier DEFAULT_PARAMS = 1"
    by (simp_all add: DEFAULT_PARAMS_def)
  have v: "risk_index (runLocalSimulation DEFAULT_PARAMS) = 6"
    "new_health_score (runLocalSimulation DEFAULT_PARAMS) = 82.6"
    "delta_from_base (runLocalSimulation DEFAULT_PARAMS) = 7.6"
    "projected_cash (runLocalSimulation DEFAULT_PARAMS) = 192600"
    "map val (revenue_forecast (runLocalSimulation DEFAULT_PARAMS)) = [70000, 72100, 74200, 76300]"
    unfolding runLocalSimulation_def deltaFromBase_def n baseHealth_val projectedCash_val
      revenueForecast_val s
    by (simp_all add: one_decimal_nonneg Math_round_def del: One_nat_def)
  have e: "new_health_score_ext (runLocalSimulation_ext DEFAULT_PARAMS) = Finite 82.6"
    "delta_from_base_ext (runLocalSimulation_ext DEFAULT_PARAMS) = Finite 7.6"
    "risk_index_ext (runLocalSimulation_ext DEFAULT_PARAMS) = Finite 6"
    "projected_cash_ext (runLocalSimulation_ext DEFAULT_PARAMS) = Finite 192600"
    unfolding levers_in_range [OF l] v by simp_all
  have "map val_ext (revenue_forecast_ext (runLocalSimulation_ext DEFAULT_PARAMS)) =
          map Finite (map val (revenue_forecast (runLocalSimulation DEFAULT_PARAMS)))"
    unfolding levers_in_range [OF l] by (simp add: comp_def)
  then have f: "map val_ext (revenue_forecast_ext (runLocalSimulation_ext DEFAULT_PARAMS)) =
     [Finite 70000, Finite 72100, Finite 74200, Finite 76300]"
    unfolding v by simp
  from l e f C8_output_rounding_unless_non_finite [of DEFAULT_PARAMS] show ?thesis by blast
qed

text \<open>
  C8 as the specification states it fails for finite parameters. With
  \<open>sales_growth_multiplier = expense_growth_multiplier = 1e308\<close> the four forecast values
  are \<open>Infinity\<close> and \<open>projected_cash\<close> is \<open>Infinity - Infinity = NaN\<close>, none an integer;
  with \<open>supplier_delay_factor = 1e308\<close> and \<open>reorder_threshold_multiplier = -1e308\<close> the
  three one-decimal outputs are \<open>NaN\<close>. As for C2, \<open>overflow_cash_NaN\<close> and
  \<open>overflow_risk_NaN\<close> give the same for every parameter value near \<open>10^308\<close>.
\<close>

theorem C8_overflow_counterexample:
  "map val_ext (revenue_forecast_ext (runLocalSimulation_ext
      (DEFAULT_PARAMS\<lparr>sales_growth_multiplier := 10 ^ 308, expense_growth_multiplier := 10 ^ 308\<rparr>)))
     = [Infinity, Infinity, Infinity, Infinity] \<and>
   \<not> list_all (\<lambda>pt. integral (val_ext pt)) (revenue_forecast_ext (runLocalSimulation_ext
      (DEFAULT_PARAMS\<lparr>sales_growth_multiplier := 10 ^ 308, expense_growth_multiplier := 10 ^ 308\<rparr>))) \<and>
   projected_cash_ext (runLocalSimulation_ext
      (DEFAULT_PARAMS\<lparr>sales_growth_multiplier := 10 ^ 308, expense_growth_multiplier := 10 ^ 308\<rparr>))
     = NaN \<and>
   \<not> integral (projected_cash_ext (runLocalSimulation_ext
      (DEFAULT_PARAMS\<lparr>sales_growth_multiplier := 10 ^ 308, expense_growth_multiplier := 10 ^ 308\<rparr>))) \<and>
   \<not> one_decimal (new_health_score_ext (runLocalSimulation_ext
      (DEFAULT_PARAMS\<lparr>supplier_delay_factor := 10 ^ 308, reorder_threshold_multiplier := - (10 ^ 308)\<rparr>))) \<and>
   \<not> one_decimal (delta_from_base_ext (runLocalSimulation_ext
      (DEFAULT_PARAMS\<lparr>supplier_delay_factor := 10 ^ 308, reorder_threshold_multiplier := - (10 ^ 308)\<rparr>))) \<and>
   \<not> one_decimal (risk_index_ext (runLocalSimulation_ext
      (DEFAULT_PARAMS\<lparr>supplier_delay_factor := 10 ^ 308, reorder_threshold_multiplier := - (10 ^ 308)\<rparr>)))"
proof -
  define T :: real where "T = 10 ^ 308"
  let ?p = "DEFAULT_PARAMS\<lparr>sales_growth_multiplier := T, expense_growth_multiplier := T\<rparr>"
  let ?q = "DEFAULT_PARAMS\<lparr>supplier_delay_factor := T, reorder_threshold_multiplier := - T\<rparr>"
  have t: "2 \<le> T" "T + 1 < OVERFLOW" "OVERFLOW < 2 * T"
    unfolding T_def by (rule OVERFLOW_308)+
  have a: "sales_growth_multiplier ?p = T" "expense_growth_multiplier ?p = T"
    by simp_all
  have b: "supplier_delay_factor ?q = T" "reorder_threshold_multiplier ?q = - T"
    by simp_all
  note c = overflow_cash_NaN [OF t a]
  note n = overflow_risk_NaN [OF t b]
  have f: "map val_ext (revenue_forecast_ext (runLocalSimulation_ext ?p))
             = [Infinity, Infinity, Infinity, Infinity]"
    unfolding runLocalSimulation_ext_def using c(2) by simp
  have "\<not> list_all integral (map val_ext (revenue_forecast_ext (runLocalSimulation_ext ?p)))"
    unfolding f by simp
  then have g: "\<not> list_all (\<lambda>pt. integral (val_ext pt)) (revenue_forecast_ext (runLocalSimulation_ext ?p))"
    by (simp add: list_all_iff)
  have k: "projected_cash_ext (runLocalSimulation_ext ?p) = NaN"
    unfolding runLocalSimulation_ext_def using c(1) by simp
  have o: "new_health_score_ext (runLocalSimulation_ext ?q) = NaN"
    "delta_from_base_ext (runLocalSimulation_ext ?q) = NaN"
    "risk_index_ext (runLocalSimulation_ext ?q) = NaN"
    unfolding runLocalSimulation_ext_def n by (simp_all add: parseFloat_ext_words)
  show ?thesis unfolding T_def [symmetric] o k using f g by simp
qed

text \<open>
  C9. The risk levers do not reach revenue and cash: two parameter vectors that agree on
  \<open>sales_growth_multiplier\<close> and \<open>expense_growth_multiplier\<close>, whatever their fraud
  sensitivity, supplier delay and reorder threshold, give the same \<open>revenue_forecast\<close>
  and the same \<open>projected_cash\<close>.
\<close>

theorem C9_risk_levers_do_not_reach_revenue_or_cash:
  assumes "sales_growth_multiplier p = sales_growth_multiplier q"
    and "expense_growth_multiplier p = expense_growth_multiplier q"
  shows "revenue_forecast (runLocalSimulation p) = revenue_forecast (runLocalSimulation q) \<and>
         projected_cash (runLocalSimulation p) = projected_cash (runLocalSimulation q)"
  using assms by (simp add: runLocalSimulation_def revenueForecast_val projectedCash_val)

text \<open>
  C9 at \<open>DEFAULT_PARAMS\<close> against a vector with all three risk levers changed.
\<close>

theorem C9_risk_levers_do_not_reach_revenue_or_cash_witness:
  "revenue_forecast (runLocalSimulation (DEFAULT_PARAMS\<lparr>fraud_sensitivity := 1.5,
      supplier_delay_factor := 0.8, reorder_threshold_multiplier := 1.5\<rparr>)) =
     [\<lparr> period = ''P1'', val = 70000 \<rparr>, \<lparr> period = ''P2'', val = 72100 \<rparr>,
      \<lparr> period = ''P3'', val = 74200 \<rparr>, \<lparr> period = ''P4'', val = 76300 \<rparr>] \<and>
   revenue_forecast (runLocalSimulation DEFAULT_PARAMS) =
     revenue_forecast (runLocalSimulation (DEFAULT_PARAMS\<lparr>fraud_sensitivity := 1.5,
      supplier_delay_factor := 0.8, reorder_threshold_multiplier := 1.5\<rparr>)) \<and>
   projected_cash (runLocalSimulation DEFAULT_PARAMS) =
     projected_cash (runLocalSimulation (DEFAULT_PARAMS\<lparr>fraud_sensitivity := 1.5,
      supplier_delay_factor := 0.8, reorder_threshold_multiplier := 1.5\<rparr>))"
proof -
  let ?q = "DEFAULT_PARAMS\<lparr>fraud_sensitivity := 1.5,
      supplier_delay_factor := 0.8, reorder_threshold_multiplier := 1.5\<rparr>"
  have "revenue_forecast (runLocalSimulation DEFAULT_PARAMS) = revenue_forecast (runLocalSimulation ?q) \<and>
         projected_cash (runLocalSimulation DEFAULT_PARAMS) = projected_cash (runLocalSimulation ?q)"
    by (rule C9_risk_levers_do_not_reach_revenue_or_cash) simp_all
  moreover have "revenue_forecast (runLocalSimulation ?q) =
     [\<lparr> period = ''P1'', val = 70000 \<rparr>, \<lparr> period = ''P2'', val = 72100 \<rparr>,
      \<lparr> period = ''P3'', val = 74200 \<rparr>, \<lparr> period = ''P4'', val = 76300 \<rparr>]"
    by (simp add: runLocalSimulation_def revenueForecast_val DEFAULT_PARAMS_def Math_round_def)
  ultimately show ?thesis by simp
qed

text \<open>
  C10. The baseline is a constant of the component and not an input of the call: for
  every parameter vector the result's metadata is that of \<open>baseResult\<close>, that is base
  health score 75, base expense total 50000 and fraud rate 10, and the cash projection
  starts from the fixed cash 100000.
\<close>

theorem C10_baseline_is_fixed:
  "metadata (runLocalSimulation p) =
     \<lparr> base_health_score = 75, base_expense_total = 50000, fraud_rate_percent = 10 \<rparr> \<and>
   metadata (runLocalSimulation p) = metadata baseResult \<and>
   projected_cash (runLocalSimulation p) = Math_round (100000 + revenueSum p - expenseSum p) \<and>
   projected_cash (runLocalSimulation p) =
     Math_round (100000 + 292600 * sales_growth_multiplier p - 4 * (50000 * expense_growth_multiplier p))"
proof -
  have m: "metadata (runLocalSimulation p) = metadata baseResult"
    by (simp add: runLocalSimulation_def)
  have b: "metadata baseResult =
     \<lparr> base_health_score = 75, base_expense_total = 50000, fraud_rate_percent = 10 \<rparr>"
    by (simp add: baseResult_def)
  have c: "projected_cash (runLocalSimulation p) = Math_round (100000 + revenueSum p - expenseSum p)"
    by (simp add: runLocalSimulation_def projectedCash_def)
  have d: "revenueSum p = 292600 * sales_growth_multiplier p"
    by (rule revenueSum_val)
  have e: "expenseSum p = 4 * (50000 * expense_growth_multiplier p)"
    by (simp add: expenseSum_def simulatedExpenseTotal_def baseExpense_val)
  show ?thesis using m b c unfolding d e by simp
qed

end
